theory Spec2Isabelle
  imports Main "HOL-Library.Sublist" "HOL-Library.Multiset"
begin

section \<open>Data model (engine/phase.py, engine/state.py, engine/actions.py, engine/events.py)\<close>

text \<open>
  The phases of \<^verbatim>\<open>engine/phase.py\<close>, in the order of the enum.
\<close>

datatype Phase = SETUP | NIGHT | DAWN | DAY_DISCUSSION | DAY_VOTE | DAY_VOTE_RESULT | GAME_OVER

text \<open>
  \<^verbatim>\<open>PlayerSlot\<close> of \<^verbatim>\<open>engine/state.py\<close>. The open \<^verbatim>\<open>metadata\<close> dict is an
  association list of strings.
\<close>

record PlayerSlot =
  player_id :: string
  name :: string
  role :: string
  team :: string
  is_alive :: bool
  metadata :: "(string \<times> string) list"

text \<open>
  The actions of \<^verbatim>\<open>engine/actions.py\<close>; the first argument of each constructor is the
  \<^verbatim>\<open>player_id\<close> of the base class. \<^verbatim>\<open>VoteAction\<close> carries \<^verbatim>\<open>target_id\<close> (None is an
  abstention), \<^verbatim>\<open>UseAbilityAction\<close> carries \<^verbatim>\<open>ability_name\<close> and \<^verbatim>\<open>target_id\<close>. The
  \<^verbatim>\<open>metadata\<close> dict of the base class is never read by the engine and is left out.
\<close>

datatype Action =
    SpeakAction string string
  | VoteAction string "string option"
  | UseAbilityAction string string string
  | NoAction string string

text \<open>
  The events of \<^verbatim>\<open>engine/events.py\<close>. Every constructor starts with the \<^verbatim>\<open>day\<close> and
  \<^verbatim>\<open>phase\<close> of the base class, followed by the fields of the subclass in the order of
  their declaration. The \<^verbatim>\<open>metadata\<close> dict of the base class always keeps its default in
  the engine and is left out. A \<^verbatim>\<open>VoteResultEvent\<close> tally is the dict in insertion order.
  The \<^verbatim>\<open>protected\<close> field of a \<^verbatim>\<open>NightResultEvent\<close> is filled with \<^verbatim>\<open>list(protected)\<close>
  of a Python set, whose element order is not determined by the program; it is kept as a
  set here.
\<close>

datatype GameEvent =
    PhaseChangeEvent int Phase Phase Phase
  | SpeechEvent int Phase string string string
  | VoteEvent int Phase string "string option"
  | VoteResultEvent int Phase "(string \<times> nat) list" "string option" bool
  | EliminationEvent int Phase string string string
  | AbilityUseEvent int Phase string string string
  | PrivateRevealEvent int Phase string string
  | NightResultEvent int Phase "string list" "string set" "string list"
  | GameEndEvent int Phase string "string list" string
  | ReasoningEvent int Phase string string string

text \<open>
  \<^verbatim>\<open>GameState\<close>: \<^verbatim>\<open>players\<close> and \<^verbatim>\<open>events\<close> are tuples, \<^verbatim>\<open>night_actions\<close> is a dict
  from player id to action, kept in insertion order (the order \<^verbatim>\<open>items()\<close> iterates in).
\<close>

record GameState =
  day :: int
  phase :: Phase
  players :: "PlayerSlot list"
  events :: "GameEvent list"
  night_actions :: "(string \<times> Action) list"

subsection \<open>Queries\<close>

definition get_player :: "GameState \<Rightarrow> string \<Rightarrow> PlayerSlot option" where
  "get_player st pid = find (\<lambda>p. player_id p = pid) (players st)"

definition get_alive_players :: "GameState \<Rightarrow> PlayerSlot list" where
  "get_alive_players st = filter is_alive (players st)"

definition get_alive_player_ids :: "GameState \<Rightarrow> string list" where
  "get_alive_player_ids st = map player_id (filter is_alive (players st))"

definition get_players_by_role :: "GameState \<Rightarrow> string \<Rightarrow> PlayerSlot list" where
  "get_players_by_role st r = filter (\<lambda>p. role p = r) (players st)"

definition get_players_by_team :: "GameState \<Rightarrow> string \<Rightarrow> PlayerSlot list" where
  "get_players_by_team st t = filter (\<lambda>p. team p = t) (players st)"

subsection \<open>Immutable updates\<close>

text \<open>
  \<^verbatim>\<open>d[k] = v\<close> on a dict: an existing key keeps its position and gets the new value, a
  new key is appended.
\<close>

fun dict_set :: "('k \<times> 'v) list \<Rightarrow> 'k \<Rightarrow> 'v \<Rightarrow> ('k \<times> 'v) list" where
  "dict_set [] k v = [(k, v)]"
| "dict_set ((k', v') # kvs) k v =
     (if k' = k then (k, v) # kvs else (k', v') # dict_set kvs k v)"

definition with_phase :: "GameState \<Rightarrow> Phase \<Rightarrow> GameState" where
  "with_phase st ph = st\<lparr>phase := ph\<rparr>"

definition with_day :: "GameState \<Rightarrow> int \<Rightarrow> GameState" where
  "with_day st d = st\<lparr>day := d\<rparr>"

definition with_player_killed :: "GameState \<Rightarrow> string \<Rightarrow> GameState" where
  "with_player_killed st pid =
     st\<lparr>players := map (\<lambda>p. if player_id p = pid then p\<lparr>is_alive := False\<rparr> else p) (players st)\<rparr>"

definition with_night_action :: "GameState \<Rightarrow> string \<Rightarrow> Action \<Rightarrow> GameState" where
  "with_night_action st pid a = st\<lparr>night_actions := dict_set (night_actions st) pid a\<rparr>"

definition with_event :: "GameState \<Rightarrow> GameEvent \<Rightarrow> GameState" where
  "with_event st e = st\<lparr>events := events st @ [e]\<rparr>"

definition clear_night_actions :: "GameState \<Rightarrow> GameState" where
  "clear_night_actions st = st\<lparr>night_actions := []\<rparr>"

subsection \<open>The view of one player (GameStateView)\<close>

text \<open>
  \<^verbatim>\<open>GameStateView(game_state, player_id)\<close> holds the state and the id of the owning player;
  its properties are functions of the two. \<^verbatim>\<open>replace(p, role="unknown", team="unknown",
  metadata={})\<close> is the record update.
\<close>

definition alive_players :: "GameState \<Rightarrow> string \<Rightarrow> PlayerSlot list" where
  "alive_players st pid =
     map (\<lambda>p. if player_id p = pid then p
              else p\<lparr>role := ''unknown'', team := ''unknown'', metadata := []\<rparr>)
       (get_alive_players st)"

definition all_players :: "GameState \<Rightarrow> string \<Rightarrow> (string \<times> string \<times> bool) list" where
  "all_players st pid = map (\<lambda>p. (player_id p, name p, is_alive p)) (players st)"

text \<open>
  The loop of the \<^verbatim>\<open>events\<close> property over the event log: the \<^verbatim>\<open>isinstance\<close> tests in the
  order of the source.
\<close>

fun visible_events :: "bool \<Rightarrow> string \<Rightarrow> GameEvent list \<Rightarrow> GameEvent list" where
  "visible_events is_wolf pid [] = []"
| "visible_events is_wolf pid (PrivateRevealEvent d ph target info # es) =
     (if target = pid then PrivateRevealEvent d ph target info # visible_events is_wolf pid es
      else visible_events is_wolf pid es)"
| "visible_events is_wolf pid (SpeechEvent d ph speaker content channel # es) =
     (if channel = ''wolf'' then
        (if is_wolf then SpeechEvent d ph speaker content channel # visible_events is_wolf pid es
         else visible_events is_wolf pid es)
      else SpeechEvent d ph speaker content channel # visible_events is_wolf pid es)"
| "visible_events is_wolf pid (e # es) = e # visible_events is_wolf pid es"

definition view_events :: "GameState \<Rightarrow> string \<Rightarrow> GameEvent list" where
  "view_events st pid =
     (let my_player = get_player st pid;
          is_wolf = (case my_player of None \<Rightarrow> False | Some p \<Rightarrow> team p = ''werewolf'')
      in visible_events is_wolf pid (events st))"

text \<open>
  The visibility rule in the words of the specification: a private reveal is for its
  named player, a speech on the wolf channel is for a player whose own team is
  \<^verbatim>\<open>werewolf\<close>, every other event is for everybody.
\<close>

definition own_team_is :: "GameState \<Rightarrow> string \<Rightarrow> string \<Rightarrow> bool" where
  "own_team_is st pid t = (case get_player st pid of None \<Rightarrow> False | Some p \<Rightarrow> team p = t)"

text \<open>The restricted kinds of event: private reveals and speeches on the wolf channel.\<close>

fun restricted :: "GameEvent \<Rightarrow> bool" where
  "restricted (PrivateRevealEvent d ph target info) = True"
| "restricted (SpeechEvent d ph speaker content channel) = (channel = ''wolf'')"
| "restricted e = False"

fun visible_to :: "GameState \<Rightarrow> string \<Rightarrow> GameEvent \<Rightarrow> bool" where
  "visible_to st pid (PrivateRevealEvent d ph target info) = (target = pid)"
| "visible_to st pid (SpeechEvent d ph speaker content channel) =
     (if channel = ''wolf'' then own_team_is st pid ''werewolf'' else True)"
| "visible_to st pid e = True"

section \<open>Roles and the registry (roles/base.py, roles/registry.py)\<close>

record AbilityDefinition =
  ability_name :: string
  ability_phase :: Phase
  priority :: int
  description :: string
  targets :: string

text \<open>
  A role object: \<^verbatim>\<open>name\<close>, \<^verbatim>\<open>team\<close>, \<^verbatim>\<open>description\<close> and \<^verbatim>\<open>abilities\<close> of \<^verbatim>\<open>RoleBase\<close>.
\<close>

record Role =
  role_name :: string
  role_team :: string
  role_description :: string
  abilities :: "AbilityDefinition list"

text \<open>
  Errors raised by the embedded code: \<^verbatim>\<open>RoleRegistry.get\<close> raises \<^verbatim>\<open>KeyError\<close> for a role
  name that is not registered; indexing an empty list and \<^verbatim>\<open>random.choice\<close> of an empty
  sequence raise \<^verbatim>\<open>IndexError\<close>.
\<close>

datatype error = KeyError string | IndexError

text \<open>
  The registry handed to the resolver: \<^verbatim>\<open>role_registry.get(role_name)\<close> is \<open>reg role_name\<close>,
  with None for the \<^verbatim>\<open>KeyError\<close> of an unknown name.
\<close>

type_synonym RoleRegistry = "string \<Rightarrow> Role option"

section \<open>Night-action resolver (engine/resolver.py)\<close>

datatype NightAction =
  NightAction (na_player_id: string) (na_ability: string) (na_target_id: string) (na_priority: int)

definition get_ability_priority :: "Role \<Rightarrow> string \<Rightarrow> int" where
  "get_ability_priority r ab =
     (case find (\<lambda>a. ability_name a = ab) (abilities r) of
        Some a \<Rightarrow> priority a
      | None \<Rightarrow> 50)"

text \<open>
  Step 1 of \<^verbatim>\<open>resolve_night\<close>: the loop over \<^verbatim>\<open>state.night_actions.items()\<close>. Entries that
  are no \<^verbatim>\<open>UseAbilityAction\<close> and entries of an unknown player id are skipped; the registry
  lookup of the acting player's role may raise.
\<close>

fun build_night_actions ::
  "GameState \<Rightarrow> RoleRegistry \<Rightarrow> (string \<times> Action) list \<Rightarrow> error + NightAction list" where
  "build_night_actions st reg [] = Inr []"
| "build_night_actions st reg ((pid, UseAbilityAction apid ab tgt) # rest) =
     (case get_player st pid of
        None \<Rightarrow> build_night_actions st reg rest
      | Some player \<Rightarrow>
          (case reg (role player) of
             None \<Rightarrow> Inl (KeyError (role player))
           | Some r \<Rightarrow>
               (case build_night_actions st reg rest of
                  Inl e \<Rightarrow> Inl e
                | Inr nas \<Rightarrow> Inr (NightAction pid ab tgt (get_ability_priority r ab) # nas))))"
| "build_night_actions st reg ((pid, a) # rest) = build_night_actions st reg rest"

text \<open>
  Step 2: the walk over the sorted actions. The accumulator holds \<^verbatim>\<open>protected\<close>,
  \<^verbatim>\<open>wolf_kill_votes\<close> and \<^verbatim>\<open>events\<close>.
\<close>

fun walk_actions ::
  "GameState \<Rightarrow> NightAction list \<Rightarrow> string set \<times> string list \<times> GameEvent list
     \<Rightarrow> string set \<times> string list \<times> GameEvent list" where
  "walk_actions st [] acc = acc"
| "walk_actions st (na # nas) (protected, wolf_kill_votes, evs) =
     walk_actions st nas
       (if na_ability na = ''protect'' then
          (insert (na_target_id na) protected, wolf_kill_votes, evs)
        else if na_ability na = ''kill'' then
          (protected, wolf_kill_votes @ [na_target_id na], evs)
        else if na_ability na = ''investigate'' then
          (case get_player st (na_target_id na) of
             None \<Rightarrow> (protected, wolf_kill_votes, evs)
           | Some target_player \<Rightarrow>
               (protected, wolf_kill_votes,
                evs @ [PrivateRevealEvent (day st) DAWN (na_player_id na)
                         (name target_player @ '' ('' @ na_target_id na @ '') is a ''
                            @ role target_player @ ''.'')]))
        else (protected, wolf_kill_votes, evs))"

text \<open>
  \<^verbatim>\<open>Counter(votes)\<close>: \<^verbatim>\<open>tally[x] += 1\<close> for each vote in turn; the dict keeps the order of
  first occurrence.
\<close>

fun counter_add :: "(string \<times> nat) list \<Rightarrow> string \<Rightarrow> (string \<times> nat) list" where
  "counter_add [] x = [(x, 1)]"
| "counter_add ((k, c) # kcs) x =
     (if k = x then (k, c + 1) # kcs else (k, c) # counter_add kcs x)"

definition Counter :: "string list \<Rightarrow> (string \<times> nat) list" where
  "Counter xs = foldl counter_add [] xs"

text \<open>
  \<^verbatim>\<open>tally.most_common(1)\<close>: the entry with the highest count, the earliest one among equal
  counts; an empty tally gives the empty list, and \<^verbatim>\<open>[0]\<close> on it raises.
\<close>

fun most_common1 :: "(string \<times> nat) list \<Rightarrow> (string \<times> nat) option" where
  "most_common1 [] = None"
| "most_common1 (kc # rest) =
     (case most_common1 rest of
        None \<Rightarrow> Some kc
      | Some m \<Rightarrow> if snd kc < snd m then Some m else Some kc)"

text \<open>
  \<^verbatim>\<open>random.choice(seq)\<close> returns \<^verbatim>\<open>seq[k]\<close> for a draw \<^verbatim>\<open>k\<close> below \<^verbatim>\<open>len(seq)\<close> and raises
  \<^verbatim>\<open>IndexError\<close> on an empty sequence. The random source is the number \<open>r\<close>; the draw is
  \<open>r mod length seq\<close>.
\<close>

definition random_choice :: "nat \<Rightarrow> 'a list \<Rightarrow> error + 'a" where
  "random_choice r xs = (if xs = [] then Inl IndexError else Inr (xs ! (r mod length xs)))"

text \<open>Step 3: the wolves' vote for one kill target; the result is the list \<^verbatim>\<open>kills\<close>.\<close>

definition wolf_consensus :: "string list \<Rightarrow> nat \<Rightarrow> error + string list" where
  "wolf_consensus wolf_kill_votes r =
     (if wolf_kill_votes = [] then Inr []
      else
        let num_wolves = length wolf_kill_votes;
            tally = Counter wolf_kill_votes
        in case most_common1 tally of
             None \<Rightarrow> Inl IndexError
           | Some (top_id, max_votes) \<Rightarrow>
               let required = (if num_wolves \<le> 2 then num_wolves else num_wolves div 2 + 1)
               in if max_votes \<ge> required then
                    (case random_choice r (map fst (filter (\<lambda>(pid, cnt). cnt = max_votes) tally)) of
                       Inl e \<Rightarrow> Inl e
                     | Inr chosen_target \<Rightarrow> Inr [chosen_target])
                  else Inr [])"

text \<open>
  Step 4: a protected kill target is saved, any other becomes an actual kill. The
  accumulator holds \<^verbatim>\<open>saved\<close> and \<^verbatim>\<open>actual_kills\<close>.
\<close>

fun cancel_protected ::
  "string set \<Rightarrow> string list \<Rightarrow> string list \<times> string list \<Rightarrow> string list \<times> string list" where
  "cancel_protected protected [] acc = acc"
| "cancel_protected protected (target_id # kills) (saved, actual_kills) =
     cancel_protected protected kills
       (if target_id \<in> protected then (saved @ [target_id], actual_kills)
        else if target_id \<notin> set actual_kills then (saved, actual_kills @ [target_id])
        else (saved, actual_kills))"

text \<open>
  The second step 4: the kills are applied to the state; an \<^verbatim>\<open>EliminationEvent\<close> is
  produced only for a target that is a living player of the current state.
\<close>

fun apply_kills ::
  "string list \<Rightarrow> GameState \<times> GameEvent list \<Rightarrow> GameState \<times> GameEvent list" where
  "apply_kills [] acc = acc"
| "apply_kills (target_id # actual_kills) (new_state, evs) =
     apply_kills actual_kills
       (case get_player new_state target_id of
          None \<Rightarrow> (new_state, evs)
        | Some target_player \<Rightarrow>
            if is_alive target_player then
              (let killed = with_player_killed new_state target_id
               in (killed,
                   evs @ [EliminationEvent (day killed) DAWN target_id (role target_player)
                            ''wolf_kill'']))
            else (new_state, evs))"

text \<open>
  \<^verbatim>\<open>resolve_night\<close>: the returned pair of the new state and the emitted events, or the error
  raised on the way. The \<^verbatim>\<open>NightResultEvent\<close> is inserted at index 0 of the events, and all
  events are appended to the state in order.
\<close>

definition resolve_night ::
  "GameState \<Rightarrow> RoleRegistry \<Rightarrow> nat \<Rightarrow> error + (GameState \<times> GameEvent list)" where
  "resolve_night st reg r =
     (case build_night_actions st reg (night_actions st) of
        Inl e \<Rightarrow> Inl e
      | Inr built \<Rightarrow>
          (case walk_actions st (sort_key na_priority built) ({}, [], []) of
             (protected, wolf_kill_votes, evs) \<Rightarrow>
               (case wolf_consensus wolf_kill_votes r of
                  Inl e \<Rightarrow> Inl e
                | Inr kills \<Rightarrow>
                    (case cancel_protected protected kills ([], []) of
                       (saved, actual_kills) \<Rightarrow>
                         (case apply_kills actual_kills (st, evs) of
                            (new_state, evs') \<Rightarrow>
                              (let all_events =
                                     NightResultEvent (day st) DAWN actual_kills protected saved # evs'
                               in Inr (foldl with_event new_state all_events, all_events)))))))"

subsection \<open>What was submitted, read off the state\<close>

text \<open>
  The ability uses that count in a night: the \<^verbatim>\<open>UseAbilityAction\<close> entries of
  \<^verbatim>\<open>night_actions\<close> whose key is the id of a player of the state, as (player id, ability
  name, target id), in submission order.
\<close>

fun submitted :: "GameState \<Rightarrow> (string \<times> Action) list \<Rightarrow> (string \<times> string \<times> string) list" where
  "submitted st [] = []"
| "submitted st ((pid, UseAbilityAction apid ab tgt) # rest) =
     (if get_player st pid = None then submitted st rest
      else (pid, ab, tgt) # submitted st rest)"
| "submitted st ((pid, a) # rest) = submitted st rest"

definition ability_targets :: "GameState \<Rightarrow> string \<Rightarrow> string list" where
  "ability_targets st ab =
     map (\<lambda>(pid, ab', tgt). tgt) (filter (\<lambda>(pid, ab', tgt). ab' = ab) (submitted st (night_actions st)))"

text \<open>The submitted wolf kill votes and the targets of the submitted protect actions.\<close>

definition kill_votes :: "GameState \<Rightarrow> string list" where
  "kill_votes st = ability_targets st ''kill''"

definition protect_targets :: "GameState \<Rightarrow> string set" where
  "protect_targets st = set (ability_targets st ''protect'')"

text \<open>
  The agreement threshold in the words of the specification: unanimity for at most two
  votes, a strict majority, \<open>N div 2 + 1\<close>, for three or more.
\<close>

definition required_votes :: "nat \<Rightarrow> nat" where
  "required_votes n = (if n \<le> 2 then n else n div 2 + 1)"

text \<open>
  A target reaches the threshold among the votes.
\<close>

definition reaches_threshold :: "string list \<Rightarrow> string \<Rightarrow> bool" where
  "reaches_threshold votes t = (votes \<noteq> [] \<and> required_votes (length votes) \<le> count_list votes t)"

text \<open>
  The role of every player that submitted an ability is known to the registry: the data
  model's reading of \<^verbatim>\<open>role\<close> as a key into the role registry.
\<close>

definition roles_registered :: "GameState \<Rightarrow> RoleRegistry \<Rightarrow> bool" where
  "roles_registered st reg =
     list_all (\<lambda>(pid, ab, tgt). case get_player st pid of
                                  None \<Rightarrow> True
                                | Some p \<Rightarrow> reg (role p) \<noteq> None)
       (submitted st (night_actions st))"

text \<open>The id names a player of the state who is dead.\<close>

definition dead_in :: "GameState \<Rightarrow> string \<Rightarrow> bool" where
  "dead_in st t = (case get_player st t of None \<Rightarrow> False | Some p \<Rightarrow> \<not> is_alive p)"

text \<open>The id names a living player of the state.\<close>

definition living :: "GameState \<Rightarrow> string \<Rightarrow> bool" where
  "living st t = (case get_player st t of None \<Rightarrow> False | Some p \<Rightarrow> is_alive p)"

fun is_reveal :: "GameEvent \<Rightarrow> bool" where
  "is_reveal (PrivateRevealEvent d ph pid info) = True"
| "is_reveal _ = False"

fun is_elimination :: "GameEvent \<Rightarrow> bool" where
  "is_elimination (EliminationEvent d ph pid r c) = True"
| "is_elimination _ = False"

fun is_night_result :: "GameEvent \<Rightarrow> bool" where
  "is_night_result (NightResultEvent d ph ks ps ss) = True"
| "is_night_result _ = False"

text \<open>The private reveals that the walk over the sorted actions produces, in order.\<close>

fun reveal_events :: "GameState \<Rightarrow> NightAction list \<Rightarrow> GameEvent list" where
  "reveal_events st [] = []"
| "reveal_events st (na # nas) =
     (if na_ability na = ''investigate'' then
        (case get_player st (na_target_id na) of
           None \<Rightarrow> reveal_events st nas
         | Some tp \<Rightarrow> PrivateRevealEvent (day st) DAWN (na_player_id na)
                         (name tp @ '' ('' @ na_target_id na @ '') is a '' @ role tp @ ''.'')
                       # reveal_events st nas)
      else reveal_events st nas)"

text \<open>The count a tally holds for a key, 0 for a key it does not hold.\<close>

definition cnt :: "(string \<times> nat) list \<Rightarrow> string \<Rightarrow> nat" where
  "cnt t k = (case map_of t k of Some c \<Rightarrow> c | None \<Rightarrow> 0)"

section \<open>Day vote (engine/moderator.py)\<close>

text \<open>
  \<^verbatim>\<open>Moderator.run_vote\<close> after the votes have been collected from the agents: \<^verbatim>\<open>votes\<close> is
  the dict from voter id to target id (None for an abstention) in insertion order, and
  \<^verbatim>\<open>tie_breaker\<close> is \<^verbatim>\<open>config.voting.tie_breaker\<close>. First the loop that appends one
  \<^verbatim>\<open>VoteEvent\<close> per entry.
\<close>

fun emit_vote_events :: "GameState \<Rightarrow> (string \<times> string option) list \<Rightarrow> GameState" where
  "emit_vote_events st [] = st"
| "emit_vote_events st ((voter_id, target_id) # votes) =
     emit_vote_events (with_event st (VoteEvent (day st) DAY_VOTE voter_id target_id)) votes"

text \<open>The tally loop over \<^verbatim>\<open>votes.values()\<close>: only targets that are not None are counted.\<close>

fun tally_votes :: "(string \<times> nat) list \<Rightarrow> string option list \<Rightarrow> (string \<times> nat) list" where
  "tally_votes tally [] = tally"
| "tally_votes tally (None # rest) = tally_votes tally rest"
| "tally_votes tally (Some target_id # rest) = tally_votes (counter_add tally target_id) rest"

text \<open>
  The candidates with the highest count, in tally order; the \<^verbatim>\<open>[0]\<close> after
  \<^verbatim>\<open>most_common(1)\<close> raises on an empty tally.
\<close>

definition top_candidates :: "(string \<times> nat) list \<Rightarrow> error + string list" where
  "top_candidates tally =
     (case most_common1 tally of
        None \<Rightarrow> Inl IndexError
      | Some (top_id, max_votes) \<Rightarrow> Inr (map fst (filter (\<lambda>(pid, cnt). cnt = max_votes) tally)))"

text \<open>
  \<^verbatim>\<open>VotingConfig\<close> of \<^verbatim>\<open>config/schema.py\<close> (the field \<^verbatim>\<open>method\<close> is \<open>voting_method\<close> here)
  and its defaults.
\<close>

record VotingConfig =
  voting_method :: string
  allow_no_vote :: bool
  reveal_votes :: bool
  tie_breaker :: string

definition default_voting :: VotingConfig where
  "default_voting = \<lparr>voting_method = ''plurality'', allow_no_vote = False, reveal_votes = True,
                      tie_breaker = ''no_elimination''\<rparr>"

text \<open>The decision on \<^verbatim>\<open>eliminated_id\<close> and \<^verbatim>\<open>tie\<close>.\<close>

definition decide_vote ::
  "(string \<times> nat) list \<Rightarrow> VotingConfig \<Rightarrow> nat \<Rightarrow> error + (string option \<times> bool)" where
  "decide_vote tally voting r =
     (if tally = [] then Inr (None, False)
      else
        (case top_candidates tally of
           Inl e \<Rightarrow> Inl e
         | Inr cands \<Rightarrow>
             if length cands = 1 then
               (case cands of [] \<Rightarrow> Inl IndexError | c # cs \<Rightarrow> Inr (Some c, False))
             else if tie_breaker voting = ''no_elimination'' then Inr (None, True)
             else if tie_breaker voting = ''random'' then
               (case random_choice r cands of
                  Inl e \<Rightarrow> Inl e
                | Inr c \<Rightarrow> Inr (Some c, True))
             else Inr (None, True)))"

definition run_vote ::
  "GameState \<Rightarrow> (string \<times> string option) list \<Rightarrow> VotingConfig \<Rightarrow> nat \<Rightarrow> error + GameState" where
  "run_vote st0 votes voting r =
     (let st = emit_vote_events st0 votes;
          tally = tally_votes [] (map snd votes)
      in case decide_vote tally voting r of
           Inl e \<Rightarrow> Inl e
         | Inr (eliminated_id, tie) \<Rightarrow>
             Inr (with_event st (VoteResultEvent (day st) DAY_VOTE tally eliminated_id tie)))"

subsection \<open>The votes, read off the collected map\<close>

text \<open>The number of votes for a target, and the targets named, in voting order.\<close>

definition vote_count :: "(string \<times> string option) list \<Rightarrow> string \<Rightarrow> nat" where
  "vote_count votes x = count_list (map snd votes) (Some x)"

fun named_targets :: "string option list \<Rightarrow> string list" where
  "named_targets [] = []"
| "named_targets (None # ts) = named_targets ts"
| "named_targets (Some x # ts) = x # named_targets ts"

text \<open>
  A plurality target: it has a vote, and no named target has more.
\<close>

definition plurality :: "(string \<times> string option) list \<Rightarrow> string \<Rightarrow> bool" where
  "plurality votes x =
     (0 < vote_count votes x \<and>
      list_all (\<lambda>y. vote_count votes y \<le> vote_count votes x) (named_targets (map snd votes)))"

text \<open>The candidates tied at the top, as the code lists them.\<close>

definition tied :: "(string \<times> string option) list \<Rightarrow> string list" where
  "tied votes = (case top_candidates (tally_votes [] (map snd votes)) of Inl e \<Rightarrow> [] | Inr cands \<Rightarrow> cands)"

section \<open>Victory checker (engine/victory.py)\<close>

definition check_victory :: "GameState \<Rightarrow> GameEvent option" where
  "check_victory st =
     (let alive = get_alive_players st;
          alive_wolves = filter (\<lambda>p. team p = ''werewolf'') alive;
          alive_villagers = filter (\<lambda>p. team p = ''village'') alive
      in if alive_wolves = [] then
           Some (GameEndEvent (day st) (phase st) ''village''
                   (map player_id (get_players_by_team st ''village''))
                   ''All werewolves have been eliminated.'')
         else if length alive_wolves \<ge> length alive_villagers then
           Some (GameEndEvent (day st) (phase st) ''werewolf''
                   (map player_id (get_players_by_team st ''werewolf''))
                   ''Werewolves equal or outnumber the villagers.'')
         else None)"

text \<open>The number of living players of a team, as the victory law counts them.\<close>

definition alive_count :: "GameState \<Rightarrow> string \<Rightarrow> nat" where
  "alive_count st t = length (filter (\<lambda>p. is_alive p \<and> team p = t) (players st))"

text \<open>The ids of every player of a team, alive or dead, in player order.\<close>

definition team_ids :: "GameState \<Rightarrow> string \<Rightarrow> string list" where
  "team_ids st t = map player_id (filter (\<lambda>p. team p = t) (players st))"

fun winning_team :: "GameEvent option \<Rightarrow> string option" where
  "winning_team (Some (GameEndEvent d ph t ws r)) = Some t"
| "winning_team _ = None"

section \<open>Game orchestration (engine/game.py)\<close>

text \<open>\<^verbatim>\<open>str(n)\<close> of an integer, as the f-strings render it.\<close>

fun str_nat :: "nat \<Rightarrow> string" where
  "str_nat n = (if n < 10 then [''0123456789'' ! n]
                else str_nat (n div 10) @ [''0123456789'' ! (n mod 10)])"

definition str_int :: "int \<Rightarrow> string" where
  "str_int i = (if i < 0 then ''-'' @ str_nat (nat (- i)) else str_nat (nat i))"

text \<open>
  \<^verbatim>\<open>Game._transition\<close> and \<^verbatim>\<open>Game._end_game\<close> on the game's state; the events they hand to the
  listeners are the events they append. \<^verbatim>\<open>_end_game\<close> returns its \<^verbatim>\<open>result\<close>; the function
  here gives the state it leaves behind.
\<close>

definition transition :: "GameState \<Rightarrow> Phase \<Rightarrow> GameState" where
  "transition st new_phase =
     (let old_phase = phase st;
          state = with_phase st new_phase;
          event = PhaseChangeEvent (day state) new_phase old_phase new_phase
      in with_event state event)"

definition end_game :: "GameState \<Rightarrow> GameEvent \<Rightarrow> GameState" where
  "end_game st result =
     (let state = with_phase st GAME_OVER;
          phase_event = PhaseChangeEvent (day state) GAME_OVER (phase state) GAME_OVER;
          state = with_event state phase_event
      in with_event state result)"

text \<open>
  The phase runners of the \<^verbatim>\<open>Moderator\<close> object that \<^verbatim>\<open>Game.run\<close> calls, with the agents, the
  configuration and the registry they work with fixed: \<^verbatim>\<open>run_night\<close>, \<^verbatim>\<open>run_dawn\<close>,
  \<^verbatim>\<open>run_discussion\<close>, \<^verbatim>\<open>run_vote\<close> and \<^verbatim>\<open>run_vote_result\<close>.
\<close>

record ModeratorPhases =
  night_runner :: "GameState \<Rightarrow> GameState"
  dawn_runner :: "GameState \<Rightarrow> GameState"
  discussion_runner :: "GameState \<Rightarrow> GameState"
  vote_runner :: "GameState \<Rightarrow> GameState"
  vote_result_runner :: "GameState \<Rightarrow> GameEvent \<Rightarrow> GameState"

text \<open>\<^verbatim>\<open>Game._last_vote_result\<close>: the most recent \<^verbatim>\<open>VoteResultEvent\<close> of the log.\<close>

fun is_vote_result :: "GameEvent \<Rightarrow> bool" where
  "is_vote_result (VoteResultEvent d ph tally eliminated_id tie) = True"
| "is_vote_result e = False"

definition last_vote_result :: "GameState \<Rightarrow> GameEvent option" where
  "last_vote_result st = find is_vote_result (rev (events st))"

text \<open>
  One pass of the main loop of \<^verbatim>\<open>Game.run\<close> for the day \<^verbatim>\<open>day\<close>: the game is over, with
  the state left behind and the returned result, or the loop goes on with the next day.
\<close>

datatype DayOutcome = GameOver GameState GameEvent | NextDay GameState

definition game_day :: "ModeratorPhases \<Rightarrow> int \<Rightarrow> GameState \<Rightarrow> DayOutcome" where
  "game_day m d st0 =
     (let st = with_day st0 d;
          st = transition st NIGHT;
          st = night_runner m st;
          st = transition st DAWN;
          st = dawn_runner m st
      in case check_victory st of
           Some result \<Rightarrow> GameOver (end_game st result) result
         | None \<Rightarrow>
             (let st = transition st DAY_DISCUSSION;
                  st = discussion_runner m st;
                  st = transition st DAY_VOTE;
                  st = vote_runner m st;
                  st = transition st DAY_VOTE_RESULT;
                  st = (case last_vote_result st of
                          Some vote_result_event \<Rightarrow> vote_result_runner m st vote_result_event
                        | None \<Rightarrow> st)
              in case check_victory st of
                   Some result \<Rightarrow> GameOver (end_game st result) result
                 | None \<Rightarrow> NextDay st))"

text \<open>
  The loop \<^verbatim>\<open>while day < max_days\<close> with the cut-off after it, and \<^verbatim>\<open>Game.run\<close> from the
  state that \<^verbatim>\<open>_setup_players\<close> built.
\<close>

function run_days :: "ModeratorPhases \<Rightarrow> int \<Rightarrow> int \<Rightarrow> GameState \<Rightarrow> GameState \<times> GameEvent" where
  "run_days m max_days d st =
     (if d < max_days then
        (case game_day m (d + 1) st of
           GameOver final result \<Rightarrow> (final, result)
         | NextDay st' \<Rightarrow> run_days m max_days (d + 1) st')
      else
        (let result = GameEndEvent d (phase st) ''werewolf''
                        (map player_id (get_players_by_team st ''werewolf''))
                        (''Game exceeded the maximum of '' @ str_int max_days @ '' days.'')
         in (end_game st result, result)))"
  by pat_completeness auto
termination
  by (relation "measure (\<lambda>(m, max_days, d, st). nat (max_days - d))") auto

definition run :: "ModeratorPhases \<Rightarrow> int \<Rightarrow> GameState \<Rightarrow> GameState \<times> GameEvent" where
  "run m max_days st0 = run_days m max_days 0 (with_event st0 (PhaseChangeEvent 0 SETUP SETUP NIGHT))"










section \<open>The classic roles and the test fixture\<close>

text \<open>
  The four built-in roles of \<^verbatim>\<open>roles/classic/\<close> with their abilities, and the registry
  that holds exactly them.
\<close>

definition Werewolf :: Role where
  "Werewolf = \<lparr>role_name = ''werewolf'', role_team = ''werewolf'',
     role_description = ''You are a werewolf. During the night, you and your fellow wolves choose a victim to kill. During the day, blend in with villagers and avoid suspicion. Coordinate with other wolves.'',
     abilities = [\<lparr>ability_name = ''kill'', ability_phase = NIGHT, priority = 15,
                    description = ''Choose a player to kill'', targets = ''alive_others''\<rparr>]\<rparr>"

definition Doctor :: Role where
  "Doctor = \<lparr>role_name = ''doctor'', role_team = ''village'',
     role_description = ''You are the doctor. Each night you may choose one player to protect from being killed by the werewolves. Choose wisely to keep key village members alive.'',
     abilities = [\<lparr>ability_name = ''protect'', ability_phase = NIGHT, priority = 10,
                    description = ''Protect a player from being killed tonight'', targets = ''alive_any''\<rparr>]\<rparr>"

definition Seer :: Role where
  "Seer = \<lparr>role_name = ''seer'', role_team = ''village'',
     role_description = ''You are the seer. Each night you may investigate one player to learn which team they belong to. Use this information wisely to guide the village toward eliminating the werewolves.'',
     abilities = [\<lparr>ability_name = ''investigate'', ability_phase = NIGHT, priority = 20,
                    description = ''Investigate a player to learn their team'', targets = ''alive_others''\<rparr>]\<rparr>"

definition Villager :: Role where
  "Villager = \<lparr>role_name = ''villager'', role_team = ''village'',
     role_description = ''A regular villager. You have no special abilities but can participate in discussion and voting. Use your reasoning to identify the werewolves.'',
     abilities = []\<rparr>"

definition classic_registry :: RoleRegistry where
  "classic_registry n =
     (if n = ''werewolf'' then Some Werewolf
      else if n = ''doctor'' then Some Doctor
      else if n = ''seer'' then Some Seer
      else if n = ''villager'' then Some Villager
      else None)"

text \<open>
  \<^verbatim>\<open>PlayerSlot(player_id, name, role, team)\<close> with the defaults \<^verbatim>\<open>is_alive=True\<close> and
  \<^verbatim>\<open>metadata={}\<close>.
\<close>

definition new_player :: "string \<Rightarrow> string \<Rightarrow> string \<Rightarrow> string \<Rightarrow> PlayerSlot" where
  "new_player pid n r t =
     \<lparr>player_id = pid, name = n, role = r, team = t, is_alive = True, metadata = []\<rparr>"


text \<open>The fixture \<^verbatim>\<open>five_player_state\<close> of \<^verbatim>\<open>tests/unit/test_resolver.py\<close>.\<close>

definition five_player_state :: GameState where
  "five_player_state =
     \<lparr>day = 1, phase = NIGHT,
      players = [new_player ''wolf1'' ''Wolf1'' ''werewolf'' ''werewolf'',
                 new_player ''wolf2'' ''Wolf2'' ''werewolf'' ''werewolf'',
                 new_player ''seer1'' ''Seer'' ''seer'' ''village'',
                 new_player ''doc1'' ''Doctor'' ''doctor'' ''village'',
                 new_player ''vil1'' ''Villager'' ''villager'' ''village''],
      events = [], night_actions = []\<rparr>"




text \<open>A player submits the use of an ability on a target.\<close>

definition submit :: "GameState \<Rightarrow> string \<Rightarrow> string \<Rightarrow> string \<Rightarrow> GameState" where
  "submit st pid ab tgt = with_night_action st pid (UseAbilityAction pid ab tgt)"

text \<open>
  Nights on the fixture: both wolves name the villager; the wolves name different
  targets; the doctor protects the villager both wolves name.
\<close>

definition night_same :: GameState where
  "night_same = submit (submit five_player_state ''wolf1'' ''kill'' ''vil1'') ''wolf2'' ''kill'' ''vil1''"

definition night_split :: GameState where
  "night_split = submit (submit five_player_state ''wolf1'' ''kill'' ''vil1'') ''wolf2'' ''kill'' ''seer1''"

definition night_saved :: GameState where
  "night_saved = submit night_same ''doc1'' ''protect'' ''vil1''"

text \<open>A state with three wolves and two villagers, and the night of a 2-vs-1 split.\<close>

definition three_wolf_state :: GameState where
  "three_wolf_state =
     \<lparr>day = 1, phase = NIGHT,
      players = [new_player ''wolf1'' ''Wolf1'' ''werewolf'' ''werewolf'',
                 new_player ''wolf2'' ''Wolf2'' ''werewolf'' ''werewolf'',
                 new_player ''wolf3'' ''Wolf3'' ''werewolf'' ''werewolf'',
                 new_player ''vil1'' ''Villager1'' ''villager'' ''village'',
                 new_player ''vil2'' ''Villager2'' ''villager'' ''village''],
      events = [], night_actions = []\<rparr>"

definition night_majority :: GameState where
  "night_majority =
     submit (submit (submit three_wolf_state ''wolf1'' ''kill'' ''vil1'') ''wolf2'' ''kill'' ''vil2'')
       ''wolf3'' ''kill'' ''vil1''"

text \<open>
  The fixture after the villager has died, and the night in which the first wolf still
  names the villager.
\<close>

definition villager_dead :: GameState where
  "villager_dead = with_player_killed five_player_state ''vil1''"

definition night_dead_target :: GameState where
  "night_dead_target = submit villager_dead ''wolf1'' ''kill'' ''vil1''"

text \<open>
  Votes on the fixture: a 2-2-1 tie (scenario C of the specification), and a vote with one
  abstention in which the villager has the most votes.
\<close>

definition votes_tie :: "(string \<times> string option) list" where
  "votes_tie = [(''wolf1'', Some ''vil1''), (''wolf2'', Some ''vil1''), (''seer1'', Some ''wolf1''),
                (''doc1'', Some ''wolf1''), (''vil1'', Some ''seer1'')]"

definition votes_plurality :: "(string \<times> string option) list" where
  "votes_plurality = [(''wolf1'', Some ''vil1''), (''wolf2'', Some ''vil1''), (''seer1'', Some ''wolf1''),
                      (''doc1'', None), (''vil1'', Some ''wolf2'')]"


text \<open>
  The fixture with a sixth player whose role, \<^verbatim>\<open>witch\<close>, is not one of the registered roles,
  and the night in which both wolves name the villager and the witch acts too.
\<close>

definition witch_state :: GameState where
  "witch_state =
     five_player_state\<lparr>players := players five_player_state
                                    @ [new_player ''witch1'' ''Witch'' ''witch'' ''village'']\<rparr>"

definition night_witch :: GameState where
  "night_witch =
     submit (submit (submit witch_state ''wolf1'' ''kill'' ''vil1'') ''wolf2'' ''kill'' ''vil1'')
       ''witch1'' ''hex'' ''wolf1''"

text \<open>
  The night on the fixture in which the first wolf names the villager and a protect action
  on the villager is stored under an id, \<^verbatim>\<open>ghost\<close>, that is no player of the state.
\<close>

definition night_ghost_protect :: GameState where
  "night_ghost_protect =
     submit (submit five_player_state ''wolf1'' ''kill'' ''vil1'') ''ghost'' ''protect'' ''vil1''"

text \<open>
  The fixture after a day and a night: a public speech, a speech on the wolf channel, a
  private reveal for the seer, and the elimination of the villager.
\<close>

definition fixture_with_events :: GameState where
  "fixture_with_events =
     (with_player_killed five_player_state ''vil1'')
       \<lparr>events := [SpeechEvent 1 DAY_DISCUSSION ''doc1'' ''I trust the seer.'' ''public'',
                   SpeechEvent 1 NIGHT ''wolf1'' ''Let us take the villager.'' ''wolf'',
                   PrivateRevealEvent 1 DAWN ''seer1'' ''Wolf1 (wolf1) is a werewolf.'',
                   EliminationEvent 1 DAWN ''vil1'' ''villager'' ''wolf_kill'']\<rparr>"

section \<open>Theorems\<close>

subsection \<open>The resolver, step by step\<close>

lemma build_submitted:
  "build_night_actions st reg kvs = Inr nas \<Longrightarrow>
     map (\<lambda>na. (na_player_id na, na_ability na, na_target_id na)) nas = submitted st kvs"
  by (induction st reg kvs arbitrary: nas rule: build_night_actions.induct)
     (auto split: option.splits sum.splits)

lemma build_total:
  "list_all (\<lambda>(pid, ab, tgt). case get_player st pid of None \<Rightarrow> True | Some p \<Rightarrow> reg (role p) \<noteq> None)
       (submitted st kvs) \<Longrightarrow> \<exists>nas. build_night_actions st reg kvs = Inr nas"
proof (induction st reg kvs rule: build_night_actions.induct)
  case (1 st reg)
  then show ?case by simp
next
  case (2 st reg pid apid ab tgt rest)
  show ?case
  proof (cases "get_player st pid")
    case None
    with 2 show ?thesis by simp
  next
    case (Some player)
    with "2.prems" obtain r where r: "reg (role player) = Some r" by auto
    from "2.prems" Some have "list_all (\<lambda>(pid, ab, tgt). case get_player st pid of None \<Rightarrow> True | Some p \<Rightarrow> reg (role p) \<noteq> None)
       (submitted st rest)" by (simp add: case_prod_unfold)
    from "2.IH"(2) [OF Some r this] obtain nas where "build_night_actions st reg rest = Inr nas" ..
    with Some r show ?thesis by simp
  qed
qed simp_all

lemma walk_actions_eq:
  "walk_actions st nas (P, V, E) =
     (P \<union> na_target_id ` {na \<in> set nas. na_ability na = ''protect''},
      V @ map na_target_id (filter (\<lambda>na. na_ability na = ''kill'') nas),
      E @ reveal_events st nas)"
  by (induction nas arbitrary: P V E) (auto split: option.splits)

lemma reveal_events_all: "list_all is_reveal (reveal_events st nas)"
  by (induction nas) (auto split: option.splits)

lemma counter_add_keys: "fst ` set (counter_add t x) = insert x (fst ` set t)"
  by (induction t x rule: counter_add.induct) auto

lemma counter_add_distinct: "distinct (map fst t) \<Longrightarrow> distinct (map fst (counter_add t x))"
proof (induction t x rule: counter_add.induct)
  case (1 x) then show ?case by simp
next
  case (2 k c kcs x)
  then show ?case using counter_add_keys [of kcs x] by auto
qed

lemma cnt_counter_add: "cnt (counter_add t x) k = cnt t k + (if k = x then 1 else 0)"
  by (induction t x rule: counter_add.induct) (auto simp: cnt_def)

lemma foldl_counter_add_cnt: "cnt (foldl counter_add t xs) k = cnt t k + count_list xs k"
  by (induction xs arbitrary: t) (simp_all add: cnt_counter_add)

lemma foldl_counter_add_keys: "fst ` set (foldl counter_add t xs) = fst ` set t \<union> set xs"
  by (induction xs arbitrary: t) (simp_all add: counter_add_keys)

lemma foldl_counter_add_distinct:
  "distinct (map fst t) \<Longrightarrow> distinct (map fst (foldl counter_add t xs))"
  by (induction xs arbitrary: t) (simp_all add: counter_add_distinct)

lemma Counter_distinct: "distinct (map fst (Counter xs))"
  by (simp add: Counter_def foldl_counter_add_distinct)

lemma Counter_keys: "fst ` set (Counter xs) = set xs"
  by (simp add: Counter_def foldl_counter_add_keys)

lemma Counter_cnt: "cnt (Counter xs) k = count_list xs k"
  unfolding Counter_def foldl_counter_add_cnt by (simp add: cnt_def)

lemma Counter_mem: "((k, c) \<in> set (Counter xs)) = (k \<in> set xs \<and> c = count_list xs k)"
proof
  assume m: "(k, c) \<in> set (Counter xs)"
  then have "map_of (Counter xs) k = Some c"
    using Counter_distinct [of xs] by simp
  then have "cnt (Counter xs) k = c" by (simp add: cnt_def)
  moreover from m have "k \<in> fst ` set (Counter xs)" by force
  ultimately show "k \<in> set xs \<and> c = count_list xs k"
    by (simp add: Counter_cnt Counter_keys)
next
  assume a: "k \<in> set xs \<and> c = count_list xs k"
  then have "k \<in> fst ` set (Counter xs)" by (simp add: Counter_keys)
  then obtain c' where c': "(k, c') \<in> set (Counter xs)" by auto
  then have "map_of (Counter xs) k = Some c'"
    using Counter_distinct [of xs] by simp
  then have "cnt (Counter xs) k = c'" by (simp add: cnt_def)
  with a c' show "(k, c) \<in> set (Counter xs)" by (simp add: Counter_cnt)
qed

lemma most_common1_None: "(most_common1 t = None) = (t = [])"
  by (cases t) (simp_all split: option.splits)

lemma most_common1_Some:
  "most_common1 t = Some (k, m) \<Longrightarrow> (k, m) \<in> set t \<and> (\<forall>(k', c) \<in> set t. c \<le> m)"
proof (induction t arbitrary: k m)
  case Nil
  then show ?case by simp
next
  case (Cons kc t)
  show ?case
  proof (cases "most_common1 t")
    case None
    then have "t = []" by (simp add: most_common1_None)
    with Cons.prems show ?thesis by auto
  next
    case (Some b)
    obtain k' m' where b: "b = (k', m')" by (cases b)
    from Cons.IH [of k' m'] Some b have ih: "(k', m') \<in> set t" "\<forall>(k'', c) \<in> set t. c \<le> m'" by auto
    show ?thesis
    proof (cases "snd kc < m'")
      case True
      with Cons.prems Some b have "k = k'" "m = m'" by auto
      with ih True show ?thesis by (cases kc) auto
    next
      case False
      with Cons.prems Some b have "kc = (k, m)" by auto
      with ih False show ?thesis by fastforce
    qed
  qed
qed

lemma count_two: "t \<noteq> t' \<Longrightarrow> count_list xs t + count_list xs t' \<le> length xs"
  by (induction xs) auto

lemma threshold_unique:
  assumes "reaches_threshold votes t" "reaches_threshold votes t'"
  shows "t = t'"
proof (rule ccontr)
  assume "t \<noteq> t'"
  from count_two [OF this, of votes] show False
proof -
    assume a: "count_list votes t + count_list votes t' \<le> length votes"
    from assms have n: "0 < length votes" and
      r: "required_votes (length votes) \<le> count_list votes t" "required_votes (length votes) \<le> count_list votes t'"
      by (auto simp: reaches_threshold_def)
    show False
    proof (cases "length votes \<le> 2")
      case True
      with r a n show False by (simp add: required_votes_def)
    next
      case False
      with r have "length votes div 2 + 1 \<le> count_list votes t" "length votes div 2 + 1 \<le> count_list votes t'"
        by (simp_all add: required_votes_def)
      with a show False by arith
    qed
  qed
qed

lemma singleton_list: "distinct xs \<Longrightarrow> set xs = {k} \<Longrightarrow> xs = [k]"
  by (cases xs) (auto simp: subset_singleton_iff)

lemma distinct_fst_filter: "distinct (map fst t) \<Longrightarrow> distinct (map fst (filter P t))"
  by (simp add: distinct_map_filter)

lemma wolf_consensus_char:
  "\<exists>ks. wolf_consensus votes r = Inr ks \<and> length ks \<le> 1 \<and> (\<forall>t. (t \<in> set ks) = reaches_threshold votes t)"
proof (cases "votes = []")
  case True
  then show ?thesis by (simp add: wolf_consensus_def reaches_threshold_def)
next
  case False
  then have "Counter votes \<noteq> []" using Counter_keys [of votes] by auto
  then obtain k m where mc: "most_common1 (Counter votes) = Some (k, m)"
    using most_common1_None [of "Counter votes"] by (cases "most_common1 (Counter votes)") auto
  from most_common1_Some [OF mc] have kin: "(k, m) \<in> set (Counter votes)"
    and top: "\<forall>(k', c) \<in> set (Counter votes). c \<le> m"
    by blast+
  from kin have km: "k \<in> set votes" "m = count_list votes k"
    by (simp_all add: Counter_mem)
  have le: "count_list votes t \<le> m" for t
  proof (cases "t \<in> set votes")
    case True
    then have "(t, count_list votes t) \<in> set (Counter votes)" by (simp add: Counter_mem)
    with top show ?thesis by blast
  next
    case False
    then show ?thesis by (simp add: count_list_0_iff)
  qed
  let ?req = "required_votes (length votes)"
  have req: "(if length votes \<le> 2 then length votes else length votes div 2 + 1) = ?req"
    by (simp add: required_votes_def)
  let ?top = "map fst (filter (\<lambda>(pid, cnt). cnt = m) (Counter votes))"
  show ?thesis
  proof (cases "?req \<le> m")
    case True
    with km False have rk: "reaches_threshold votes k" by (simp add: reaches_threshold_def)
    have uniq: "t = k" if "reaches_threshold votes t" for t
      using that rk by (rule threshold_unique)
    have "set ?top = {k}"
    proof
      show "set ?top \<subseteq> {k}"
      proof
        fix t assume "t \<in> set ?top"
        then have "t \<in> set votes" "count_list votes t = m" by (auto simp: Counter_mem)
        with True False have "reaches_threshold votes t" by (simp add: reaches_threshold_def)
        then show "t \<in> {k}" using uniq by simp
      qed
      have "(k, m) \<in> set (Counter votes)" using km by (simp add: Counter_mem)
      then show "{k} \<subseteq> set ?top" by force
    qed
    moreover have "distinct ?top" using Counter_distinct by (rule distinct_fst_filter)
    ultimately have top1: "?top = [k]" by (rule singleton_list [rotated])
    have "wolf_consensus votes r =
            (case random_choice r ?top of Inl e \<Rightarrow> Inl e | Inr c \<Rightarrow> Inr [c])"
      using False mc True unfolding wolf_consensus_def Let_def req by simp
    then have "wolf_consensus votes r = Inr [k]"
      unfolding top1 by (simp add: random_choice_def)
    moreover have "(t \<in> set [k]) = reaches_threshold votes t" for t
    proof (cases "t = k")
      case True
      with rk show ?thesis by simp
    next
      case False
      with uniq [of t] show ?thesis by auto
    qed
    ultimately show ?thesis by (intro exI [of _ "[k]"]) simp
  next
    case nreq: False
    then have "wolf_consensus votes r = Inr []"
      using False mc unfolding wolf_consensus_def Let_def req by simp
    moreover have "\<not> reaches_threshold votes t" for t
      using le [of t] nreq by (simp add: reaches_threshold_def)
    ultimately show ?thesis by (intro exI [of _ "[]"]) simp
  qed
qed

lemma reaches_threshold_mset:
  assumes "mset xs = mset ys"
  shows "reaches_threshold xs t = reaches_threshold ys t"
proof -
  from assms have "length xs = length ys" by (rule mset_eq_length)
  moreover from assms have "count_list xs t = count_list ys t"
    by (metis count_mset)
  moreover from assms have "(xs = []) = (ys = [])" by (metis mset_zero_iff)
  ultimately show ?thesis by (simp add: reaches_threshold_def)
qed

lemma built_targets:
  assumes "build_night_actions st reg (night_actions st) = Inr built"
  shows "ability_targets st ab = map na_target_id (filter (\<lambda>na. na_ability na = ab) built)"
  unfolding ability_targets_def build_submitted [OF assms, symmetric]
  by (simp add: filter_map comp_def)

lemma sorted_kill_votes:
  assumes "build_night_actions st reg (night_actions st) = Inr built"
  shows "mset (map na_target_id (filter (\<lambda>na. na_ability na = ''kill'') (sort_key na_priority built)))
           = mset (kill_votes st)"
  unfolding kill_votes_def built_targets [OF assms] by simp

lemma sorted_protect_targets:
  assumes "build_night_actions st reg (night_actions st) = Inr built"
  shows "na_target_id ` {na \<in> set (sort_key na_priority built). na_ability na = ''protect''}
           = protect_targets st"
  unfolding protect_targets_def built_targets [OF assms] by auto

lemma cancel_protected_one:
  "length ks \<le> 1 \<Longrightarrow>
     cancel_protected P ks ([], []) = (filter (\<lambda>t. t \<in> P) ks, filter (\<lambda>t. t \<notin> P) ks)"
  by (cases ks) auto

lemma foldl_with_event: "foldl with_event st evs = st\<lparr>events := events st @ evs\<rparr>"
  by (induction evs arbitrary: st) (simp_all add: with_event_def)

lemma with_player_killed_day: "day (with_player_killed st t) = day st"
  by (simp add: with_player_killed_def)

lemma resolve_night_run:
  assumes "roles_registered st reg"
  shows "\<exists>ks revs. length ks \<le> 1 \<and> (\<forall>t. (t \<in> set ks) = reaches_threshold (kill_votes st) t)
           \<and> list_all is_reveal revs
           \<and> resolve_night st reg r =
               (case apply_kills (filter (\<lambda>t. t \<notin> protect_targets st) ks) (st, revs) of
                  (new_state, evs') \<Rightarrow>
                    Inr (foldl with_event new_state
                           (NightResultEvent (day st) DAWN (filter (\<lambda>t. t \<notin> protect_targets st) ks)
                              (protect_targets st) (filter (\<lambda>t. t \<in> protect_targets st) ks) # evs'),
                         NightResultEvent (day st) DAWN (filter (\<lambda>t. t \<notin> protect_targets st) ks)
                              (protect_targets st) (filter (\<lambda>t. t \<in> protect_targets st) ks) # evs'))"
proof -
  from assms obtain built where b: "build_night_actions st reg (night_actions st) = Inr built"
    unfolding roles_registered_def using build_total by blast
  let ?sorted = "sort_key na_priority built"
  let ?votes = "map na_target_id (filter (\<lambda>na. na_ability na = ''kill'') ?sorted)"
  let ?revs = "reveal_events st ?sorted"
  have w: "walk_actions st ?sorted ({}, [], []) = (protect_targets st, ?votes, ?revs)"
    unfolding walk_actions_eq sorted_protect_targets [OF b] by simp
  obtain ks where c: "wolf_consensus ?votes r = Inr ks" and l: "length ks \<le> 1"
    and t: "\<forall>t. (t \<in> set ks) = reaches_threshold ?votes t"
    using wolf_consensus_char [of ?votes r] by blast
  have t': "\<forall>t. (t \<in> set ks) = reaches_threshold (kill_votes st) t"
    using t reaches_threshold_mset [OF sorted_kill_votes [OF b]] by simp
  have cp: "cancel_protected (protect_targets st) ks ([], [])
              = (filter (\<lambda>t. t \<in> protect_targets st) ks, filter (\<lambda>t. t \<notin> protect_targets st) ks)"
    using l by (rule cancel_protected_one)
  have "resolve_night st reg r =
               (case apply_kills (filter (\<lambda>t. t \<notin> protect_targets st) ks) (st, ?revs) of
                  (new_state, evs') \<Rightarrow>
                    Inr (foldl with_event new_state
                           (NightResultEvent (day st) DAWN (filter (\<lambda>t. t \<notin> protect_targets st) ks)
                              (protect_targets st) (filter (\<lambda>t. t \<in> protect_targets st) ks) # evs'),
                         NightResultEvent (day st) DAWN (filter (\<lambda>t. t \<notin> protect_targets st) ks)
                              (protect_targets st) (filter (\<lambda>t. t \<in> protect_targets st) ks) # evs'))"
    unfolding resolve_night_def by (simp only: b w c cp sum.case prod.case Let_def)
  with l t' reveal_events_all [of st ?sorted] show ?thesis by blast
qed


lemma apply_kills_none: "apply_kills [] (st, evs) = (st, evs)"
  by simp

lemma apply_kills_one:
  "apply_kills [t] (st, evs) =
     (case get_player st t of
        None \<Rightarrow> (st, evs)
      | Some p \<Rightarrow> if is_alive p
                  then (with_player_killed st t,
                        evs @ [EliminationEvent (day st) DAWN t (role p) ''wolf_kill''])
                  else (st, evs))"
  by (simp add: Let_def with_player_killed_day split: option.splits)

lemma with_player_killed_events: "events (with_player_killed st t) = events st"
  by (simp add: with_player_killed_def)

lemma resolve_night_cases:
  assumes "roles_registered st reg"
  shows "\<exists>revs. list_all is_reveal revs \<and>
    ((\<forall>t. \<not> reaches_threshold (kill_votes st) t) \<and>
       resolve_night st reg r =
         Inr (st\<lparr>events := events st @ NightResultEvent (day st) DAWN [] (protect_targets st) [] # revs\<rparr>,
              NightResultEvent (day st) DAWN [] (protect_targets st) [] # revs)
     \<or> (\<exists>t. reaches_threshold (kill_votes st) t \<and> t \<in> protect_targets st \<and>
       resolve_night st reg r =
         Inr (st\<lparr>events := events st @ NightResultEvent (day st) DAWN [] (protect_targets st) [t] # revs\<rparr>,
              NightResultEvent (day st) DAWN [] (protect_targets st) [t] # revs))
     \<or> (\<exists>t p. reaches_threshold (kill_votes st) t \<and> t \<notin> protect_targets st \<and>
       get_player st t = Some p \<and> is_alive p \<and>
       resolve_night st reg r =
         Inr ((with_player_killed st t)\<lparr>events := events st @
                 NightResultEvent (day st) DAWN [t] (protect_targets st) [] # revs
                   @ [EliminationEvent (day st) DAWN t (role p) ''wolf_kill'']\<rparr>,
              NightResultEvent (day st) DAWN [t] (protect_targets st) [] # revs
                   @ [EliminationEvent (day st) DAWN t (role p) ''wolf_kill'']))
     \<or> (\<exists>t. reaches_threshold (kill_votes st) t \<and> t \<notin> protect_targets st \<and>
       (case get_player st t of None \<Rightarrow> True | Some p \<Rightarrow> \<not> is_alive p) \<and>
       resolve_night st reg r =
         Inr (st\<lparr>events := events st @ NightResultEvent (day st) DAWN [t] (protect_targets st) [] # revs\<rparr>,
              NightResultEvent (day st) DAWN [t] (protect_targets st) [] # revs)))"
proof -
  from resolve_night_run [OF assms, of r] obtain ks revs where
    l: "length ks \<le> 1" and t: "\<forall>t. (t \<in> set ks) = reaches_threshold (kill_votes st) t"
    and rv: "list_all is_reveal revs"
    and run: "resolve_night st reg r =
               (case apply_kills (filter (\<lambda>t. t \<notin> protect_targets st) ks) (st, revs) of
                  (new_state, evs') \<Rightarrow>
                    Inr (foldl with_event new_state
                           (NightResultEvent (day st) DAWN (filter (\<lambda>t. t \<notin> protect_targets st) ks)
                              (protect_targets st) (filter (\<lambda>t. t \<in> protect_targets st) ks) # evs'),
                         NightResultEvent (day st) DAWN (filter (\<lambda>t. t \<notin> protect_targets st) ks)
                              (protect_targets st) (filter (\<lambda>t. t \<in> protect_targets st) ks) # evs'))"
    by blast
  show ?thesis
  proof (cases ks)
    case Nil
    with t have "\<forall>t. \<not> reaches_threshold (kill_votes st) t" by simp
    moreover from run Nil have "resolve_night st reg r =
         Inr (st\<lparr>events := events st @ NightResultEvent (day st) DAWN [] (protect_targets st) [] # revs\<rparr>,
              NightResultEvent (day st) DAWN [] (protect_targets st) [] # revs)"
      by (simp add: foldl_with_event with_event_def)
    ultimately show ?thesis using rv by blast
  next
    case (Cons k ks')
    with l have ks: "ks = [k]" by simp
    with t have rk: "reaches_threshold (kill_votes st) k" by auto
    show ?thesis
    proof (cases "k \<in> protect_targets st")
      case True
      with run ks have "resolve_night st reg r =
         Inr (st\<lparr>events := events st @ NightResultEvent (day st) DAWN [] (protect_targets st) [k] # revs\<rparr>,
              NightResultEvent (day st) DAWN [] (protect_targets st) [k] # revs)"
        by (simp add: foldl_with_event with_event_def)
      with rk True rv show ?thesis by blast
    next
      case False
      show ?thesis
      proof (cases "get_player st k")
        case None
        with run ks False have "resolve_night st reg r =
         Inr (st\<lparr>events := events st @ NightResultEvent (day st) DAWN [k] (protect_targets st) [] # revs\<rparr>,
              NightResultEvent (day st) DAWN [k] (protect_targets st) [] # revs)"
          by (simp add: foldl_with_event with_event_def)
        moreover from None have "(case get_player st k of None \<Rightarrow> True | Some p \<Rightarrow> \<not> is_alive p)"
          by simp
        ultimately show ?thesis using rk False rv by blast
      next
        case (Some p)
        show ?thesis
        proof (cases "is_alive p")
          case True
          with run ks False Some have "resolve_night st reg r =
            Inr ((with_player_killed st k)\<lparr>events := events st @
                 NightResultEvent (day st) DAWN [k] (protect_targets st) [] # revs
                   @ [EliminationEvent (day st) DAWN k (role p) ''wolf_kill'']\<rparr>,
              NightResultEvent (day st) DAWN [k] (protect_targets st) [] # revs
                   @ [EliminationEvent (day st) DAWN k (role p) ''wolf_kill''])"
            by (simp add: foldl_with_event with_event_def with_player_killed_day with_player_killed_events Let_def)
          with rk False Some True rv show ?thesis by blast
        next
          case dead: False
          with run ks False Some have "resolve_night st reg r =
            Inr (st\<lparr>events := events st @ NightResultEvent (day st) DAWN [k] (protect_targets st) [] # revs\<rparr>,
              NightResultEvent (day st) DAWN [k] (protect_targets st) [] # revs)"
            by (simp add: foldl_with_event with_event_def)
          moreover from Some dead have "(case get_player st k of None \<Rightarrow> True | Some p \<Rightarrow> \<not> is_alive p)"
            by simp
          ultimately show ?thesis using rk False rv by blast
        qed
      qed
    qed
  qed
qed

lemma get_player_events: "get_player (st\<lparr>events := es\<rparr>) t = get_player st t"
  by (simp add: get_player_def)

lemma find_killed:
  "find (\<lambda>p. player_id p = t) (map (\<lambda>p. if player_id p = t then p\<lparr>is_alive := False\<rparr> else p) ps)
     = map_option (\<lambda>p. p\<lparr>is_alive := False\<rparr>) (find (\<lambda>p. player_id p = t) ps)"
  by (induction ps) auto

lemma get_player_killed:
  "get_player (with_player_killed st t) t = map_option (\<lambda>p. p\<lparr>is_alive := False\<rparr>) (get_player st t)"
  by (simp add: get_player_def with_player_killed_def find_killed)

lemma two_same: "reaches_threshold [a, a] a"
  by (simp add: reaches_threshold_def required_votes_def)

lemma two_different: "a \<noteq> b \<Longrightarrow> \<not> reaches_threshold [a, b] t"
  by (auto simp: reaches_threshold_def required_votes_def)

lemma three_majority: "length vs = 3 \<Longrightarrow> count_list vs a = 2 \<Longrightarrow> reaches_threshold vs a"
  by (auto simp: reaches_threshold_def required_votes_def)

lemma resolve_night_summary:
  assumes "roles_registered st reg"
  shows "\<exists>st' kills saved rest.
      resolve_night st reg r = Inr (st', NightResultEvent (day st) DAWN kills (protect_targets st) saved # rest)
    \<and> length (kills @ saved) \<le> 1
    \<and> (\<forall>t. (t \<in> set (kills @ saved)) = reaches_threshold (kill_votes st) t)
    \<and> set kills \<inter> protect_targets st = {} \<and> set saved \<subseteq> protect_targets st
    \<and> (kills = [] \<longrightarrow> players st' = players st)
    \<and> (\<forall>t \<in> set kills. get_player st t \<noteq> None \<longrightarrow> dead_in st' t)"
proof -
  from resolve_night_cases [OF assms, of r] obtain revs where
    c: "(\<forall>t. \<not> reaches_threshold (kill_votes st) t) \<and>
       resolve_night st reg r =
         Inr (st\<lparr>events := events st @ NightResultEvent (day st) DAWN [] (protect_targets st) [] # revs\<rparr>,
              NightResultEvent (day st) DAWN [] (protect_targets st) [] # revs)
     \<or> (\<exists>t. reaches_threshold (kill_votes st) t \<and> t \<in> protect_targets st \<and>
       resolve_night st reg r =
         Inr (st\<lparr>events := events st @ NightResultEvent (day st) DAWN [] (protect_targets st) [t] # revs\<rparr>,
              NightResultEvent (day st) DAWN [] (protect_targets st) [t] # revs))
     \<or> (\<exists>t p. reaches_threshold (kill_votes st) t \<and> t \<notin> protect_targets st \<and>
       get_player st t = Some p \<and> is_alive p \<and>
       resolve_night st reg r =
         Inr ((with_player_killed st t)\<lparr>events := events st @
                 NightResultEvent (day st) DAWN [t] (protect_targets st) [] # revs
                   @ [EliminationEvent (day st) DAWN t (role p) ''wolf_kill'']\<rparr>,
              NightResultEvent (day st) DAWN [t] (protect_targets st) [] # revs
                   @ [EliminationEvent (day st) DAWN t (role p) ''wolf_kill'']))
     \<or> (\<exists>t. reaches_threshold (kill_votes st) t \<and> t \<notin> protect_targets st \<and>
       (case get_player st t of None \<Rightarrow> True | Some p \<Rightarrow> \<not> is_alive p) \<and>
       resolve_night st reg r =
         Inr (st\<lparr>events := events st @ NightResultEvent (day st) DAWN [t] (protect_targets st) [] # revs\<rparr>,
              NightResultEvent (day st) DAWN [t] (protect_targets st) [] # revs))"
    by blast
  have uniq: "(t' = t) = reaches_threshold (kill_votes st) t'" if "reaches_threshold (kill_votes st) t" for t t'
    using that threshold_unique [of "kill_votes st" t' t] by auto
  from c show ?thesis
  proof (elim disjE exE conjE)
    assume n: "\<forall>t. \<not> reaches_threshold (kill_votes st) t"
      and r: "resolve_night st reg r =
         Inr (st\<lparr>events := events st @ NightResultEvent (day st) DAWN [] (protect_targets st) [] # revs\<rparr>,
              NightResultEvent (day st) DAWN [] (protect_targets st) [] # revs)"
    show ?thesis
      by (intro exI [of _ "st\<lparr>events := events st @ NightResultEvent (day st) DAWN [] (protect_targets st) [] # revs\<rparr>"]
                exI [of _ "[]"] exI [of _ revs]) (simp add: r n)
  next
    fix t
    assume rt: "reaches_threshold (kill_votes st) t" and p: "t \<in> protect_targets st"
      and r: "resolve_night st reg r =
         Inr (st\<lparr>events := events st @ NightResultEvent (day st) DAWN [] (protect_targets st) [t] # revs\<rparr>,
              NightResultEvent (day st) DAWN [] (protect_targets st) [t] # revs)"
    show ?thesis
      by (intro exI [of _ "st\<lparr>events := events st @ NightResultEvent (day st) DAWN [] (protect_targets st) [t] # revs\<rparr>"]
                exI [of _ "[]"] exI [of _ "[t]"] exI [of _ revs]) (simp add: r p uniq [OF rt])
  next
    fix t p
    assume rt: "reaches_threshold (kill_votes st) t" and np: "t \<notin> protect_targets st"
      and g: "get_player st t = Some p" and a: "is_alive p"
      and r: "resolve_night st reg r =
         Inr ((with_player_killed st t)\<lparr>events := events st @
                 NightResultEvent (day st) DAWN [t] (protect_targets st) [] # revs
                   @ [EliminationEvent (day st) DAWN t (role p) ''wolf_kill'']\<rparr>,
              NightResultEvent (day st) DAWN [t] (protect_targets st) [] # revs
                   @ [EliminationEvent (day st) DAWN t (role p) ''wolf_kill''])"
    show ?thesis
      by (intro exI [of _ "(with_player_killed st t)\<lparr>events := events st @
                 NightResultEvent (day st) DAWN [t] (protect_targets st) [] # revs
                   @ [EliminationEvent (day st) DAWN t (role p) ''wolf_kill'']\<rparr>"]
                exI [of _ "[t]"] exI [of _ "[]"]
                exI [of _ "revs @ [EliminationEvent (day st) DAWN t (role p) ''wolf_kill'']"])
         (simp add: r np uniq [OF rt] dead_in_def get_player_events get_player_killed g)
  next
    fix t
    assume rt: "reaches_threshold (kill_votes st) t" and np: "t \<notin> protect_targets st"
      and g: "case get_player st t of None \<Rightarrow> True | Some p \<Rightarrow> \<not> is_alive p"
      and r: "resolve_night st reg r =
         Inr (st\<lparr>events := events st @ NightResultEvent (day st) DAWN [t] (protect_targets st) [] # revs\<rparr>,
              NightResultEvent (day st) DAWN [t] (protect_targets st) [] # revs)"
    show ?thesis
      using g
      by (intro exI [of _ "st\<lparr>events := events st @ NightResultEvent (day st) DAWN [t] (protect_targets st) [] # revs\<rparr>"]
                exI [of _ "[t]"] exI [of _ "[]"] exI [of _ revs])
         (auto simp: r np uniq [OF rt] dead_in_def get_player_events split: option.splits)
  qed
qed

lemma reveals_no_elimination: "list_all is_reveal revs \<Longrightarrow> filter is_elimination revs = []"
proof (induction revs)
  case Nil
  then show ?case by simp
next
  case (Cons e revs)
  then show ?case by (cases e) simp_all
qed

lemma reveals_no_night_result: "list_all is_reveal revs \<Longrightarrow> \<not> list_ex is_night_result revs"
proof (induction revs)
  case Nil
  then show ?case by simp
next
  case (Cons e revs)
  then show ?case by (cases e) simp_all
qed

lemma living_Some: "living st t = (\<exists>p. get_player st t = Some p \<and> is_alive p)"
  by (cases "get_player st t") (simp_all add: living_def)

lemma not_living: "(\<not> living st t) = (case get_player st t of None \<Rightarrow> True | Some p \<Rightarrow> \<not> is_alive p)"
  by (cases "get_player st t") (simp_all add: living_def)

lemma players_events: "players (st\<lparr>events := es\<rparr>) = players st"
  by simp

lemma resolve_night_outcome:
  assumes "roles_registered st reg"
  shows "\<exists>st' kills saved rest.
      resolve_night st reg r = Inr (st', NightResultEvent (day st) DAWN kills (protect_targets st) saved # rest)
    \<and> events st' = events st @ NightResultEvent (day st) DAWN kills (protect_targets st) saved # rest
    \<and> \<not> list_ex is_night_result rest
    \<and> ((\<forall>t. \<not> reaches_threshold (kill_votes st) t) \<and> kills = [] \<and> saved = []
          \<and> filter is_elimination rest = [] \<and> players st' = players st
       \<or> (\<exists>t. reaches_threshold (kill_votes st) t \<and> t \<in> protect_targets st \<and> kills = [] \<and> saved = [t]
          \<and> filter is_elimination rest = [] \<and> players st' = players st)
       \<or> (\<exists>t p. reaches_threshold (kill_votes st) t \<and> t \<notin> protect_targets st
          \<and> get_player st t = Some p \<and> is_alive p \<and> kills = [t] \<and> saved = []
          \<and> filter is_elimination rest = [EliminationEvent (day st) DAWN t (role p) ''wolf_kill'']
          \<and> players st' = players (with_player_killed st t))
       \<or> (\<exists>t. reaches_threshold (kill_votes st) t \<and> t \<notin> protect_targets st
          \<and> \<not> living st t \<and> kills = [t] \<and> saved = []
          \<and> filter is_elimination rest = [] \<and> players st' = players st))"
proof -
  from resolve_night_cases [OF assms, of r] obtain revs where rv: "list_all is_reveal revs" and
    c: "(\<forall>t. \<not> reaches_threshold (kill_votes st) t) \<and>
       resolve_night st reg r =
         Inr (st\<lparr>events := events st @ NightResultEvent (day st) DAWN [] (protect_targets st) [] # revs\<rparr>,
              NightResultEvent (day st) DAWN [] (protect_targets st) [] # revs)
     \<or> (\<exists>t. reaches_threshold (kill_votes st) t \<and> t \<in> protect_targets st \<and>
       resolve_night st reg r =
         Inr (st\<lparr>events := events st @ NightResultEvent (day st) DAWN [] (protect_targets st) [t] # revs\<rparr>,
              NightResultEvent (day st) DAWN [] (protect_targets st) [t] # revs))
     \<or> (\<exists>t p. reaches_threshold (kill_votes st) t \<and> t \<notin> protect_targets st \<and>
       get_player st t = Some p \<and> is_alive p \<and>
       resolve_night st reg r =
         Inr ((with_player_killed st t)\<lparr>events := events st @
                 NightResultEvent (day st) DAWN [t] (protect_targets st) [] # revs
                   @ [EliminationEvent (day st) DAWN t (role p) ''wolf_kill'']\<rparr>,
              NightResultEvent (day st) DAWN [t] (protect_targets st) [] # revs
                   @ [EliminationEvent (day st) DAWN t (role p) ''wolf_kill'']))
     \<or> (\<exists>t. reaches_threshold (kill_votes st) t \<and> t \<notin> protect_targets st \<and>
       (case get_player st t of None \<Rightarrow> True | Some p \<Rightarrow> \<not> is_alive p) \<and>
       resolve_night st reg r =
         Inr (st\<lparr>events := events st @ NightResultEvent (day st) DAWN [t] (protect_targets st) [] # revs\<rparr>,
              NightResultEvent (day st) DAWN [t] (protect_targets st) [] # revs))"
    by (elim exE conjE) (rule that)
  note ne = reveals_no_elimination [OF rv]
  note nn = reveals_no_night_result [OF rv]
  from c show ?thesis
  proof (elim disjE exE conjE)
    assume n: "\<forall>t. \<not> reaches_threshold (kill_votes st) t"
      and r: "resolve_night st reg r =
         Inr (st\<lparr>events := events st @ NightResultEvent (day st) DAWN [] (protect_targets st) [] # revs\<rparr>,
              NightResultEvent (day st) DAWN [] (protect_targets st) [] # revs)"
    show ?thesis
      by (rule exI [of _ "st\<lparr>events := events st @ NightResultEvent (day st) DAWN [] (protect_targets st) [] # revs\<rparr>"],
          rule exI [of _ "[]"], rule exI [of _ "[]"], rule exI [of _ revs])
         (simp add: r n ne nn)
  next
    fix t
    assume rt: "reaches_threshold (kill_votes st) t" and p: "t \<in> protect_targets st"
      and r: "resolve_night st reg r =
         Inr (st\<lparr>events := events st @ NightResultEvent (day st) DAWN [] (protect_targets st) [t] # revs\<rparr>,
              NightResultEvent (day st) DAWN [] (protect_targets st) [t] # revs)"
    show ?thesis
      by (rule exI [of _ "st\<lparr>events := events st @ NightResultEvent (day st) DAWN [] (protect_targets st) [t] # revs\<rparr>"],
          rule exI [of _ "[]"], rule exI [of _ "[t]"], rule exI [of _ revs])
         (simp add: r rt p ne nn)
  next
    fix t p
    assume rt: "reaches_threshold (kill_votes st) t" and np: "t \<notin> protect_targets st"
      and g: "get_player st t = Some p" and a: "is_alive p"
      and r: "resolve_night st reg r =
         Inr ((with_player_killed st t)\<lparr>events := events st @
                 NightResultEvent (day st) DAWN [t] (protect_targets st) [] # revs
                   @ [EliminationEvent (day st) DAWN t (role p) ''wolf_kill'']\<rparr>,
              NightResultEvent (day st) DAWN [t] (protect_targets st) [] # revs
                   @ [EliminationEvent (day st) DAWN t (role p) ''wolf_kill''])"
    show ?thesis
      by (rule exI [of _ "(with_player_killed st t)\<lparr>events := events st @
                 NightResultEvent (day st) DAWN [t] (protect_targets st) [] # revs
                   @ [EliminationEvent (day st) DAWN t (role p) ''wolf_kill'']\<rparr>"],
          rule exI [of _ "[t]"], rule exI [of _ "[]"],
          rule exI [of _ "revs @ [EliminationEvent (day st) DAWN t (role p) ''wolf_kill'']"])
         (simp add: r rt np g a ne nn, rule exI [of _ t], simp add: rt np g a)
  next
    fix t
    assume rt: "reaches_threshold (kill_votes st) t" and np: "t \<notin> protect_targets st"
      and g: "case get_player st t of None \<Rightarrow> True | Some p \<Rightarrow> \<not> is_alive p"
      and r: "resolve_night st reg r =
         Inr (st\<lparr>events := events st @ NightResultEvent (day st) DAWN [t] (protect_targets st) [] # revs\<rparr>,
              NightResultEvent (day st) DAWN [t] (protect_targets st) [] # revs)"
    from g have nl: "\<not> living st t" by (simp add: not_living)
    show ?thesis
      by (rule exI [of _ "st\<lparr>events := events st @ NightResultEvent (day st) DAWN [t] (protect_targets st) [] # revs\<rparr>"],
          rule exI [of _ "[t]"], rule exI [of _ "[]"], rule exI [of _ revs])
         (simp add: r rt np nl ne nn)
  qed
qed

section \<open>Wolf kill consensus\<close>

lemmas fixture_defs = night_same_def night_split_def night_saved_def night_majority_def
  three_wolf_state_def five_player_state_def submit_def new_player_def with_night_action_def

lemmas registry_defs = classic_registry_def Werewolf_def Doctor_def Seer_def Villager_def

lemma adopted_unprotected:
  assumes "length (kills @ saved) \<le> 1"
    and "\<forall>t. (t \<in> set (kills @ saved)) = reaches_threshold votes t"
    and "set saved \<subseteq> P" and "reaches_threshold votes a" and "a \<notin> P"
  shows "kills = [a]"
proof -
  from assms(2,4) have "a \<in> set (kills @ saved)" by simp
  moreover from assms(3,5) have "a \<notin> set saved" by blast
  ultimately have "a \<in> set kills" by simp
  with assms(1) show ?thesis by (cases kills) simp_all
qed

lemma registered_same: "roles_registered night_same classic_registry"
  by (simp add: roles_registered_def fixture_defs registry_defs get_player_def)

lemma kill_votes_same: "kill_votes night_same = [''vil1'', ''vil1'']"
  by (simp add: kill_votes_def ability_targets_def fixture_defs get_player_def)

lemma protect_same: "protect_targets night_same = {}"
  by (simp add: protect_targets_def ability_targets_def fixture_defs get_player_def)

lemma player_same: "get_player night_same ''vil1'' \<noteq> None"
  by (simp add: fixture_defs get_player_def)



lemma split_facts:
  "roles_registered night_split classic_registry"
  "kill_votes night_split = [''vil1'', ''seer1'']"
  "day night_split = 1"
  by (simp_all add: roles_registered_def kill_votes_def ability_targets_def fixture_defs
        registry_defs get_player_def)

lemma majority_facts:
  "roles_registered night_majority classic_registry"
  "kill_votes night_majority = [''vil1'', ''vil2'', ''vil1'']"
  "protect_targets night_majority = {}"
  "get_player night_majority ''vil1'' \<noteq> None"
  "day night_majority = 1"
  by (simp_all add: roles_registered_def kill_votes_def protect_targets_def ability_targets_def
        fixture_defs registry_defs get_player_def)

text \<open>
  C1 (amended). Wolf kill consensus. Let the role of every player that submitted an ability
  be known to the registry, so that \<^verbatim>\<open>resolve_night\<close> returns instead of raising the
  registry's \<^verbatim>\<open>KeyError\<close>. The submitted wolf kill votes are the \<^verbatim>\<open>kill\<close> actions stored
  under ids of players of the state. The adopted kill target is the one that the leading
  \<^verbatim>\<open>NightResultEvent\<close> lists under \<open>kills\<close> (not protected) or under \<open>saved\<close> (protected).
  With N submitted wolf kill votes at most one target is adopted, and a target is adopted
  exactly when its vote count reaches the threshold: N for N at most 2, \<open>N div 2 + 1\<close> for
  N from 3 on. If no target reaches the threshold, nothing is adopted and no player
  changes. In particular: two wolves naming different targets produce no kill; two wolves
  naming the same unprotected target kill it; of three wolves, two naming the same
  unprotected target kill it.
\<close>

theorem wolf_kill_consensus:
  assumes "roles_registered st reg"
  shows "\<exists>st' kills prot saved rest.
      resolve_night st reg r = Inr (st', NightResultEvent (day st) DAWN kills prot saved # rest)
    \<and> length (kills @ saved) \<le> 1
    \<and> (\<forall>t. (t \<in> set (kills @ saved)) = reaches_threshold (kill_votes st) t)
    \<and> ((\<forall>t. \<not> reaches_threshold (kill_votes st) t)
          \<longrightarrow> kills = [] \<and> saved = [] \<and> players st' = players st)
    \<and> (\<forall>a b. kill_votes st = [a, b] \<and> a \<noteq> b
          \<longrightarrow> kills = [] \<and> saved = [] \<and> players st' = players st)
    \<and> (\<forall>a. kill_votes st = [a, a] \<and> a \<notin> protect_targets st
          \<longrightarrow> kills = [a] \<and> (get_player st a \<noteq> None \<longrightarrow> dead_in st' a))
    \<and> (\<forall>a. length (kill_votes st) = 3 \<and> count_list (kill_votes st) a = 2 \<and> a \<notin> protect_targets st
          \<longrightarrow> kills = [a] \<and> (get_player st a \<noteq> None \<longrightarrow> dead_in st' a))"
proof -
  from resolve_night_summary [OF assms, of r] show ?thesis
  proof (elim exE conjE)
    fix st' kills saved rest
    assume run: "resolve_night st reg r =
            Inr (st', NightResultEvent (day st) DAWN kills (protect_targets st) saved # rest)"
      and len: "length (kills @ saved) \<le> 1"
      and iff: "\<forall>t. (t \<in> set (kills @ saved)) = reaches_threshold (kill_votes st) t"
      and sv: "set saved \<subseteq> protect_targets st"
      and same: "kills = [] \<longrightarrow> players st' = players st"
      and dead: "\<forall>t \<in> set kills. get_player st t \<noteq> None \<longrightarrow> dead_in st' t"
    have none: "kills = [] \<and> saved = [] \<and> players st' = players st"
      if "\<forall>t. \<not> reaches_threshold (kill_votes st) t"
    proof -
      from that iff have "\<forall>t. t \<notin> set (kills @ saved)" by simp
      then have "set (kills @ saved) = {}" by (simp only: set_empty2 [symmetric] all_not_in_conv)
      then have "kills = []" "saved = []" by simp_all
      with same show ?thesis by simp
    qed
    have kill: "kills = [a] \<and> (get_player st a \<noteq> None \<longrightarrow> dead_in st' a)"
      if "reaches_threshold (kill_votes st) a" "a \<notin> protect_targets st" for a
    proof -
      from len iff sv that have "kills = [a]" by (rule adopted_unprotected)
      with dead show ?thesis by simp
    qed
    have c4: "(\<forall>t. \<not> reaches_threshold (kill_votes st) t)
          \<longrightarrow> kills = [] \<and> saved = [] \<and> players st' = players st"
      using none by (rule impI)
    have c5: "\<forall>a b. kill_votes st = [a, b] \<and> a \<noteq> b
          \<longrightarrow> kills = [] \<and> saved = [] \<and> players st' = players st"
    proof (intro allI impI)
      fix a b assume h: "kill_votes st = [a, b] \<and> a \<noteq> b"
      then have "\<forall>t. \<not> reaches_threshold (kill_votes st) t"
        using two_different [of a b] by simp
      then show "kills = [] \<and> saved = [] \<and> players st' = players st" by (rule none)
    qed
    have c6: "\<forall>a. kill_votes st = [a, a] \<and> a \<notin> protect_targets st
          \<longrightarrow> kills = [a] \<and> (get_player st a \<noteq> None \<longrightarrow> dead_in st' a)"
    proof (intro allI impI)
      fix a assume h: "kill_votes st = [a, a] \<and> a \<notin> protect_targets st"
      then have "reaches_threshold (kill_votes st) a" using two_same [of a] by simp
      moreover from h have "a \<notin> protect_targets st" by simp
      ultimately show "kills = [a] \<and> (get_player st a \<noteq> None \<longrightarrow> dead_in st' a)"
        by (rule kill)
    qed
    have c7: "\<forall>a. length (kill_votes st) = 3 \<and> count_list (kill_votes st) a = 2 \<and> a \<notin> protect_targets st
          \<longrightarrow> kills = [a] \<and> (get_player st a \<noteq> None \<longrightarrow> dead_in st' a)"
    proof (intro allI impI)
      fix a
      assume h: "length (kill_votes st) = 3 \<and> count_list (kill_votes st) a = 2 \<and> a \<notin> protect_targets st"
      then have "reaches_threshold (kill_votes st) a"
        using three_majority [of "kill_votes st" a] by simp
      moreover from h have "a \<notin> protect_targets st" by simp
      ultimately show "kills = [a] \<and> (get_player st a \<noteq> None \<longrightarrow> dead_in st' a)"
        by (rule kill)
    qed
    show ?thesis
      by (rule exI [of _ st'], rule exI [of _ kills], rule exI [of _ "protect_targets st"],
          rule exI [of _ saved], rule exI [of _ rest])
         (intro conjI; fact run len iff c4 c5 c6 c7)
  qed
qed

theorem wolf_kill_consensus_witness:
  "(\<exists>st' prot saved rest.
      resolve_night night_same classic_registry 0
        = Inr (st', NightResultEvent 1 DAWN [''vil1''] prot saved # rest)
      \<and> dead_in st' ''vil1'')
   \<and> (\<exists>st' prot rest.
      resolve_night night_split classic_registry 0
        = Inr (st', NightResultEvent 1 DAWN [] prot [] # rest)
      \<and> players st' = players night_split)
   \<and> (\<exists>st' prot saved rest.
      resolve_night night_majority classic_registry 0
        = Inr (st', NightResultEvent 1 DAWN [''vil1''] prot saved # rest)
      \<and> dead_in st' ''vil1'')"
proof (intro conjI)
  have d: "day night_same = 1" by (simp add: fixture_defs)
  from wolf_kill_consensus [OF registered_same, of 0]
  show "\<exists>st' prot saved rest.
      resolve_night night_same classic_registry 0
        = Inr (st', NightResultEvent 1 DAWN [''vil1''] prot saved # rest)
      \<and> dead_in st' ''vil1''"
  proof (elim exE conjE)
    fix st' kills prot saved rest
    assume run: "resolve_night night_same classic_registry 0
            = Inr (st', NightResultEvent (day night_same) DAWN kills prot saved # rest)"
      and c: "\<forall>a. kill_votes night_same = [a, a] \<and> a \<notin> protect_targets night_same
          \<longrightarrow> kills = [a] \<and> (get_player night_same a \<noteq> None \<longrightarrow> dead_in st' a)"
    from c have "kill_votes night_same = [''vil1'', ''vil1''] \<and> ''vil1'' \<notin> protect_targets night_same
          \<longrightarrow> kills = [''vil1''] \<and> (get_player night_same ''vil1'' \<noteq> None \<longrightarrow> dead_in st' ''vil1'')"
      by (rule spec)
    with kill_votes_same protect_same player_same
    have "kills = [''vil1'']" "dead_in st' ''vil1''" by simp_all
    with run d show ?thesis by simp
  qed
next
  from wolf_kill_consensus [OF split_facts(1), of 0]
  show "\<exists>st' prot rest.
      resolve_night night_split classic_registry 0
        = Inr (st', NightResultEvent 1 DAWN [] prot [] # rest)
      \<and> players st' = players night_split"
  proof (elim exE conjE)
    fix st' kills prot saved rest
    assume run: "resolve_night night_split classic_registry 0
            = Inr (st', NightResultEvent (day night_split) DAWN kills prot saved # rest)"
      and c: "\<forall>a b. kill_votes night_split = [a, b] \<and> a \<noteq> b
          \<longrightarrow> kills = [] \<and> saved = [] \<and> players st' = players night_split"
    from c have "kill_votes night_split = [''vil1'', ''seer1''] \<and> ''vil1'' \<noteq> ''seer1''
          \<longrightarrow> kills = [] \<and> saved = [] \<and> players st' = players night_split"
      by blast
    with split_facts(2)
    have "kills = []" "saved = []" "players st' = players night_split" by simp_all
    with run split_facts(3) show ?thesis by simp
  qed
next
  from wolf_kill_consensus [OF majority_facts(1), of 0]
  show "\<exists>st' prot saved rest.
      resolve_night night_majority classic_registry 0
        = Inr (st', NightResultEvent 1 DAWN [''vil1''] prot saved # rest)
      \<and> dead_in st' ''vil1''"
  proof (elim exE conjE)
    fix st' kills prot saved rest
    assume run: "resolve_night night_majority classic_registry 0
            = Inr (st', NightResultEvent (day night_majority) DAWN kills prot saved # rest)"
      and c: "\<forall>a. length (kill_votes night_majority) = 3 \<and> count_list (kill_votes night_majority) a = 2
                 \<and> a \<notin> protect_targets night_majority
          \<longrightarrow> kills = [a] \<and> (get_player night_majority a \<noteq> None \<longrightarrow> dead_in st' a)"
    from c have "length (kill_votes night_majority) = 3
                 \<and> count_list (kill_votes night_majority) ''vil1'' = 2
                 \<and> ''vil1'' \<notin> protect_targets night_majority
          \<longrightarrow> kills = [''vil1'']
              \<and> (get_player night_majority ''vil1'' \<noteq> None \<longrightarrow> dead_in st' ''vil1'')"
      by (rule spec)
    with majority_facts(2,3,4)
    have "kills = [''vil1'']" "dead_in st' ''vil1''" by simp_all
    with run majority_facts(5) show ?thesis by simp
  qed
qed

lemma witch_eval: "resolve_night night_witch classic_registry 0 = Inl (KeyError ''witch'')"
  by code_simp

lemma witch_facts:
  "kill_votes night_witch = [''vil1'', ''vil1'']"
  "protect_targets night_witch = {}"
  "living night_witch ''vil1''"
  by (simp_all add: kill_votes_def protect_targets_def ability_targets_def living_def
        night_witch_def witch_state_def fixture_defs get_player_def)

lemma ghost_eval:
  "resolve_night night_ghost_protect classic_registry 0
     = Inr (with_player_killed night_ghost_protect ''vil1''
              \<lparr>events := [NightResultEvent 1 DAWN [''vil1''] {} [],
                          EliminationEvent 1 DAWN ''vil1'' ''villager'' ''wolf_kill'']\<rparr>,
            [NightResultEvent 1 DAWN [''vil1''] {} [],
             EliminationEvent 1 DAWN ''vil1'' ''villager'' ''wolf_kill''])"
  by code_simp

lemma ghost_facts:
  "night_actions night_ghost_protect
     = [(''wolf1'', UseAbilityAction ''wolf1'' ''kill'' ''vil1''),
        (''ghost'', UseAbilityAction ''ghost'' ''protect'' ''vil1'')]"
  "kill_votes night_ghost_protect = [''vil1'']"
  "roles_registered night_ghost_protect classic_registry"
  by (simp_all add: kill_votes_def ability_targets_def roles_registered_def
        night_ghost_protect_def fixture_defs registry_defs get_player_def)

text \<open>
  Without the condition on the registry the claim fails: both wolves name the living,
  unprotected villager, a sixth player of the unregistered role \<^verbatim>\<open>witch\<close> acts too, and
  \<^verbatim>\<open>resolve_night\<close> raises \<^verbatim>\<open>KeyError\<close> instead of killing the villager.
\<close>

theorem wolf_kill_consensus_counterexample:
  "kill_votes night_witch = [''vil1'', ''vil1'']
   \<and> ''vil1'' \<notin> protect_targets night_witch
   \<and> living night_witch ''vil1''
   \<and> resolve_night night_witch classic_registry 0 = Inl (KeyError ''witch'')"
  using witch_eval by (simp add: witch_facts)

section \<open>Events of a night\<close>

lemma dead_target_eval:
  "resolve_night night_dead_target classic_registry 0
     = Inr (night_dead_target\<lparr>events := [NightResultEvent 1 DAWN [''vil1''] {} []]\<rparr>,
            [NightResultEvent 1 DAWN [''vil1''] {} []])"
  by code_simp

lemma dead_target_facts:
  "roles_registered night_dead_target classic_registry"
  "kill_votes night_dead_target = [''vil1'']"
  "protect_targets night_dead_target = {}"
  "\<not> living night_dead_target ''vil1''"
  "day night_dead_target = 1"
  by (simp_all add: roles_registered_def kill_votes_def protect_targets_def ability_targets_def
        fixture_defs registry_defs get_player_def living_def night_dead_target_def villager_dead_def
        with_player_killed_def)


lemma saved_facts:
  "roles_registered night_saved classic_registry"
  "kill_votes night_saved = [''vil1'', ''vil1'']"
  "protect_targets night_saved = {''vil1''}"
  "day night_saved = 1"
  by (simp_all add: roles_registered_def kill_votes_def protect_targets_def ability_targets_def
        fixture_defs registry_defs get_player_def)

lemma same_living: "living night_same ''vil1''"
  by (simp add: living_def fixture_defs get_player_def)

text \<open>
  C3 (amended). Events of a night. Let the role of every player that submitted an ability
  be known to the registry. Then \<^verbatim>\<open>resolve_night\<close> returns, and the emitted events start
  with the one \<^verbatim>\<open>NightResultEvent\<close> of the night, which carries the full set of protected
  targets, also when nothing was killed, protected or saved. The protect actions that
  count are those stored under the id of a player of the state. When a kill target is
  adopted by wolf consensus: if no such protect action targeted it and it is a living
  player of the state, exactly one \<^verbatim>\<open>EliminationEvent\<close> is emitted, for that target and with
  cause \<^verbatim>\<open>wolf_kill\<close>; if such a protect action targeted it, no \<^verbatim>\<open>EliminationEvent\<close> is
  emitted and the target is in both the protected set and the saved list. When no target
  is adopted, the lists of kills and of saved targets are empty and no
  \<^verbatim>\<open>EliminationEvent\<close> is emitted.
\<close>

theorem night_result_events:
  assumes "roles_registered st reg"
  shows "\<exists>st' kills prot saved rest.
      resolve_night st reg r = Inr (st', NightResultEvent (day st) DAWN kills prot saved # rest)
    \<and> prot = protect_targets st
    \<and> \<not> list_ex is_night_result rest
    \<and> (\<forall>t. reaches_threshold (kill_votes st) t \<and> t \<notin> protect_targets st \<and> living st t
          \<longrightarrow> (\<exists>p. get_player st t = Some p \<and>
                 filter is_elimination rest = [EliminationEvent (day st) DAWN t (role p) ''wolf_kill'']))
    \<and> (\<forall>t. reaches_threshold (kill_votes st) t \<and> t \<in> protect_targets st
          \<longrightarrow> filter is_elimination rest = [] \<and> t \<in> prot \<and> t \<in> set saved)
    \<and> ((\<forall>t. \<not> reaches_threshold (kill_votes st) t)
          \<longrightarrow> kills = [] \<and> saved = [] \<and> filter is_elimination rest = [])"
proof -
  from resolve_night_outcome [OF assms, of r] show ?thesis
  proof (elim exE conjE)
    fix st' kills saved rest
    assume run: "resolve_night st reg r =
        Inr (st', NightResultEvent (day st) DAWN kills (protect_targets st) saved # rest)"
      and nn: "\<not> list_ex is_night_result rest"
      and d: "(\<forall>t. \<not> reaches_threshold (kill_votes st) t) \<and> kills = [] \<and> saved = []
          \<and> filter is_elimination rest = [] \<and> players st' = players st
       \<or> (\<exists>t. reaches_threshold (kill_votes st) t \<and> t \<in> protect_targets st \<and> kills = [] \<and> saved = [t]
          \<and> filter is_elimination rest = [] \<and> players st' = players st)
       \<or> (\<exists>t p. reaches_threshold (kill_votes st) t \<and> t \<notin> protect_targets st
          \<and> get_player st t = Some p \<and> is_alive p \<and> kills = [t] \<and> saved = []
          \<and> filter is_elimination rest = [EliminationEvent (day st) DAWN t (role p) ''wolf_kill'']
          \<and> players st' = players (with_player_killed st t))
       \<or> (\<exists>t. reaches_threshold (kill_votes st) t \<and> t \<notin> protect_targets st
          \<and> \<not> living st t \<and> kills = [t] \<and> saved = []
          \<and> filter is_elimination rest = [] \<and> players st' = players st)"
    have c2: "protect_targets st = protect_targets st" by (rule refl)
    have c4: "\<forall>t. reaches_threshold (kill_votes st) t \<and> t \<notin> protect_targets st \<and> living st t
          \<longrightarrow> (\<exists>p. get_player st t = Some p \<and>
                 filter is_elimination rest = [EliminationEvent (day st) DAWN t (role p) ''wolf_kill''])"
    proof (intro allI impI, elim conjE)
      fix t
      assume rt: "reaches_threshold (kill_votes st) t" and np: "t \<notin> protect_targets st"
        and lv: "living st t"
      from d show "\<exists>p. get_player st t = Some p \<and>
                 filter is_elimination rest = [EliminationEvent (day st) DAWN t (role p) ''wolf_kill'']"
      proof (elim disjE exE conjE)
        assume "\<forall>t. \<not> reaches_threshold (kill_votes st) t"
        with rt show ?thesis by simp
      next
        fix t0 assume "reaches_threshold (kill_votes st) t0" "t0 \<in> protect_targets st"
        with rt np threshold_unique [of "kill_votes st" t t0] show ?thesis by simp
      next
        fix t0 p
        assume "reaches_threshold (kill_votes st) t0" and g: "get_player st t0 = Some p"
          and f: "filter is_elimination rest = [EliminationEvent (day st) DAWN t0 (role p) ''wolf_kill'']"
        with rt threshold_unique [of "kill_votes st" t t0] have "t = t0" by simp
        with g f show ?thesis by simp
      next
        fix t0 assume "reaches_threshold (kill_votes st) t0" "\<not> living st t0"
        with rt lv threshold_unique [of "kill_votes st" t t0] show ?thesis by simp
      qed
    qed
    have c5: "\<forall>t. reaches_threshold (kill_votes st) t \<and> t \<in> protect_targets st
          \<longrightarrow> filter is_elimination rest = [] \<and> t \<in> protect_targets st \<and> t \<in> set saved"
    proof (intro allI impI, elim conjE)
      fix t
      assume rt: "reaches_threshold (kill_votes st) t" and p: "t \<in> protect_targets st"
      from d show "filter is_elimination rest = [] \<and> t \<in> protect_targets st \<and> t \<in> set saved"
      proof (elim disjE exE conjE)
        assume "\<forall>t. \<not> reaches_threshold (kill_votes st) t"
        with rt show ?thesis by simp
      next
        fix t0 assume "reaches_threshold (kill_votes st) t0" and s: "saved = [t0]"
          and f: "filter is_elimination rest = []"
        with rt threshold_unique [of "kill_votes st" t t0] have "t = t0" by simp
        with s f p show ?thesis by simp
      next
        fix t0 p0
        assume "reaches_threshold (kill_votes st) t0" "t0 \<notin> protect_targets st"
          "get_player st t0 = Some p0"
        with rt p threshold_unique [of "kill_votes st" t t0] show ?thesis by simp
      next
        fix t0 assume "reaches_threshold (kill_votes st) t0" "t0 \<notin> protect_targets st"
          "\<not> living st t0"
        with rt p threshold_unique [of "kill_votes st" t t0] show ?thesis by simp
      qed
    qed
    have c6: "(\<forall>t. \<not> reaches_threshold (kill_votes st) t)
          \<longrightarrow> kills = [] \<and> saved = [] \<and> filter is_elimination rest = []"
    proof
      assume n: "\<forall>t. \<not> reaches_threshold (kill_votes st) t"
      from d show "kills = [] \<and> saved = [] \<and> filter is_elimination rest = []"
      proof (elim disjE exE conjE)
        assume "kills = []" "saved = []" "filter is_elimination rest = []"
        then show ?thesis by simp
      next
        fix t0 assume "reaches_threshold (kill_votes st) t0" "t0 \<in> protect_targets st"
        with n show ?thesis by simp
      next
        fix t0 p0 assume "reaches_threshold (kill_votes st) t0" "get_player st t0 = Some p0"
        with n show ?thesis by simp
      next
        fix t0 assume "reaches_threshold (kill_votes st) t0" "\<not> living st t0"
        with n show ?thesis by simp
      qed
    qed
    show ?thesis
      by (rule exI [of _ st'], rule exI [of _ kills], rule exI [of _ "protect_targets st"],
          rule exI [of _ saved], rule exI [of _ rest])
         (intro conjI; fact run c2 nn c4 c5 c6)
  qed
qed

theorem night_result_events_witness:
  "(\<exists>st' prot.
      resolve_night night_same classic_registry 0
        = Inr (st', [NightResultEvent 1 DAWN [''vil1''] prot [],
                     EliminationEvent 1 DAWN ''vil1'' ''villager'' ''wolf_kill'']))
   \<and> (\<exists>st' kills prot saved rest.
      resolve_night night_saved classic_registry 0
        = Inr (st', NightResultEvent 1 DAWN kills prot saved # rest)
      \<and> filter is_elimination rest = [] \<and> ''vil1'' \<in> prot \<and> ''vil1'' \<in> set saved)
   \<and> (\<exists>st' prot rest.
      resolve_night night_split classic_registry 0
        = Inr (st', NightResultEvent 1 DAWN [] prot [] # rest)
      \<and> filter is_elimination rest = [])"
proof (intro conjI)
  have e: "resolve_night night_same classic_registry 0
     = Inr (with_player_killed night_same ''vil1''
              \<lparr>events := [NightResultEvent 1 DAWN [''vil1''] {} [],
                          EliminationEvent 1 DAWN ''vil1'' ''villager'' ''wolf_kill'']\<rparr>,
            [NightResultEvent 1 DAWN [''vil1''] {} [],
             EliminationEvent 1 DAWN ''vil1'' ''villager'' ''wolf_kill''])"
    by code_simp
  from night_result_events [OF registered_same, of 0]
  show "\<exists>st' prot.
      resolve_night night_same classic_registry 0
        = Inr (st', [NightResultEvent 1 DAWN [''vil1''] prot [],
                     EliminationEvent 1 DAWN ''vil1'' ''villager'' ''wolf_kill''])"
  proof (elim exE conjE)
    fix st' kills prot saved rest
    assume run: "resolve_night night_same classic_registry 0
            = Inr (st', NightResultEvent (day night_same) DAWN kills prot saved # rest)"
      and c: "\<forall>t. reaches_threshold (kill_votes night_same) t \<and> t \<notin> protect_targets night_same
                \<and> living night_same t
          \<longrightarrow> (\<exists>p. get_player night_same t = Some p \<and>
                 filter is_elimination rest
                   = [EliminationEvent (day night_same) DAWN t (role p) ''wolf_kill''])"
    from c have "reaches_threshold (kill_votes night_same) ''vil1'' \<and> ''vil1'' \<notin> protect_targets night_same
                \<and> living night_same ''vil1''
          \<longrightarrow> (\<exists>p. get_player night_same ''vil1'' = Some p \<and>
                 filter is_elimination rest
                   = [EliminationEvent (day night_same) DAWN ''vil1'' (role p) ''wolf_kill''])"
      by (rule spec)
    with kill_votes_same protect_same same_living two_same [of "''vil1''"]
    have "\<exists>p. get_player night_same ''vil1'' = Some p \<and>
                 filter is_elimination rest
                   = [EliminationEvent (day night_same) DAWN ''vil1'' (role p) ''wolf_kill'']"
      by simp
    then have "filter is_elimination rest \<noteq> []" by auto
    with run e show ?thesis by auto
  qed
next
  from night_result_events [OF saved_facts(1), of 0]
  show "\<exists>st' kills prot saved rest.
      resolve_night night_saved classic_registry 0
        = Inr (st', NightResultEvent 1 DAWN kills prot saved # rest)
      \<and> filter is_elimination rest = [] \<and> ''vil1'' \<in> prot \<and> ''vil1'' \<in> set saved"
  proof (elim exE conjE)
    fix st' kills prot saved rest
    assume run: "resolve_night night_saved classic_registry 0
            = Inr (st', NightResultEvent (day night_saved) DAWN kills prot saved # rest)"
      and c: "\<forall>t. reaches_threshold (kill_votes night_saved) t \<and> t \<in> protect_targets night_saved
          \<longrightarrow> filter is_elimination rest = [] \<and> t \<in> prot \<and> t \<in> set saved"
    from c have "reaches_threshold (kill_votes night_saved) ''vil1'' \<and> ''vil1'' \<in> protect_targets night_saved
          \<longrightarrow> filter is_elimination rest = [] \<and> ''vil1'' \<in> prot \<and> ''vil1'' \<in> set saved"
      by (rule spec)
    with saved_facts(2,3) two_same [of "''vil1''"]
    have "filter is_elimination rest = [] \<and> ''vil1'' \<in> prot \<and> ''vil1'' \<in> set saved" by simp
    with run saved_facts(4) show ?thesis by simp
  qed
next
  from night_result_events [OF split_facts(1), of 0]
  show "\<exists>st' prot rest.
      resolve_night night_split classic_registry 0
        = Inr (st', NightResultEvent 1 DAWN [] prot [] # rest)
      \<and> filter is_elimination rest = []"
  proof (elim exE conjE)
    fix st' kills prot saved rest
    assume run: "resolve_night night_split classic_registry 0
            = Inr (st', NightResultEvent (day night_split) DAWN kills prot saved # rest)"
      and c: "(\<forall>t. \<not> reaches_threshold (kill_votes night_split) t)
          \<longrightarrow> kills = [] \<and> saved = [] \<and> filter is_elimination rest = []"
    have "\<forall>t. \<not> reaches_threshold (kill_votes night_split) t"
      using two_different [of "''vil1''" "''seer1''"] by (simp add: split_facts(2))
    with c have "kills = [] \<and> saved = [] \<and> filter is_elimination rest = []" by simp
    with run split_facts(3) show ?thesis by simp
  qed
qed

lemma ghost_actions:
  "night_actions night_ghost_protect
     = [(''wolf1'', UseAbilityAction ''wolf1'' ''kill'' ''vil1''),
        (''ghost'', UseAbilityAction ''ghost'' ''protect'' ''vil1'')]"
  by (simp add: night_ghost_protect_def fixture_defs)

text \<open>
  The claim as it was stated fails in three ways. On the fixture with the villager already
  dead, the first wolf's vote adopts the villager, nobody protects, and the only emitted
  event is the \<^verbatim>\<open>NightResultEvent\<close>. With a protect action on the adopted villager stored
  under an id that is no player of the state, the action is skipped: the protected set is
  empty and the villager is eliminated. With an acting player of an unregistered role,
  \<^verbatim>\<open>resolve_night\<close> raises and emits no event at all.
\<close>

theorem night_result_events_counterexample:
  "(reaches_threshold (kill_votes night_dead_target) ''vil1''
    \<and> ''vil1'' \<notin> protect_targets night_dead_target
    \<and> resolve_night night_dead_target classic_registry 0
        = Inr (night_dead_target\<lparr>events := [NightResultEvent 1 DAWN [''vil1''] {} []]\<rparr>,
               [NightResultEvent 1 DAWN [''vil1''] {} []]))
   \<and> (night_actions night_ghost_protect
        = [(''wolf1'', UseAbilityAction ''wolf1'' ''kill'' ''vil1''),
           (''ghost'', UseAbilityAction ''ghost'' ''protect'' ''vil1'')]
    \<and> resolve_night night_ghost_protect classic_registry 0
        = Inr (with_player_killed night_ghost_protect ''vil1''
                 \<lparr>events := [NightResultEvent 1 DAWN [''vil1''] {} [],
                             EliminationEvent 1 DAWN ''vil1'' ''villager'' ''wolf_kill'']\<rparr>,
               [NightResultEvent 1 DAWN [''vil1''] {} [],
                EliminationEvent 1 DAWN ''vil1'' ''villager'' ''wolf_kill'']))
   \<and> resolve_night night_witch classic_registry 0 = Inl (KeyError ''witch'')"
proof (intro conjI)
  show "reaches_threshold (kill_votes night_dead_target) ''vil1''"
    by (simp add: dead_target_facts reaches_threshold_def required_votes_def)
  show "''vil1'' \<notin> protect_targets night_dead_target" by (simp add: dead_target_facts)
  show "resolve_night night_dead_target classic_registry 0
        = Inr (night_dead_target\<lparr>events := [NightResultEvent 1 DAWN [''vil1''] {} []]\<rparr>,
               [NightResultEvent 1 DAWN [''vil1''] {} []])" by (rule dead_target_eval)
  show "night_actions night_ghost_protect
        = [(''wolf1'', UseAbilityAction ''wolf1'' ''kill'' ''vil1''),
           (''ghost'', UseAbilityAction ''ghost'' ''protect'' ''vil1'')]" by (rule ghost_actions)
  show "resolve_night night_ghost_protect classic_registry 0
        = Inr (with_player_killed night_ghost_protect ''vil1''
                 \<lparr>events := [NightResultEvent 1 DAWN [''vil1''] {} [],
                             EliminationEvent 1 DAWN ''vil1'' ''villager'' ''wolf_kill'']\<rparr>,
               [NightResultEvent 1 DAWN [''vil1''] {} [],
                EliminationEvent 1 DAWN ''vil1'' ''villager'' ''wolf_kill''])" by (rule ghost_eval)
  show "resolve_night night_witch classic_registry 0 = Inl (KeyError ''witch'')"
    by (rule witch_eval)
qed



text \<open>
  C10. An adopted, unprotected kill target that is no living player of the state (unknown
  id, or already dead): \<^verbatim>\<open>resolve_night\<close> emits no \<^verbatim>\<open>EliminationEvent\<close> and leaves the
  players as they are, and the target is still the kills list of the \<^verbatim>\<open>NightResultEvent\<close>.
\<close>

theorem dead_target_in_kills:
  assumes "roles_registered st reg"
    and "reaches_threshold (kill_votes st) t" and "t \<notin> protect_targets st" and "\<not> living st t"
  shows "\<exists>st' prot rest.
      resolve_night st reg r = Inr (st', NightResultEvent (day st) DAWN [t] prot [] # rest)
    \<and> filter is_elimination rest = []
    \<and> players st' = players st"
proof -
  from resolve_night_outcome [OF assms(1), of r] show ?thesis
  proof (elim exE conjE)
    fix st' kills saved rest
    assume run: "resolve_night st reg r =
        Inr (st', NightResultEvent (day st) DAWN kills (protect_targets st) saved # rest)"
      and d: "(\<forall>t. \<not> reaches_threshold (kill_votes st) t) \<and> kills = [] \<and> saved = []
          \<and> filter is_elimination rest = [] \<and> players st' = players st
       \<or> (\<exists>t. reaches_threshold (kill_votes st) t \<and> t \<in> protect_targets st \<and> kills = [] \<and> saved = [t]
          \<and> filter is_elimination rest = [] \<and> players st' = players st)
       \<or> (\<exists>t p. reaches_threshold (kill_votes st) t \<and> t \<notin> protect_targets st
          \<and> get_player st t = Some p \<and> is_alive p \<and> kills = [t] \<and> saved = []
          \<and> filter is_elimination rest = [EliminationEvent (day st) DAWN t (role p) ''wolf_kill'']
          \<and> players st' = players (with_player_killed st t))
       \<or> (\<exists>t. reaches_threshold (kill_votes st) t \<and> t \<notin> protect_targets st
          \<and> \<not> living st t \<and> kills = [t] \<and> saved = []
          \<and> filter is_elimination rest = [] \<and> players st' = players st)"
    from d have "kills = [t] \<and> saved = [] \<and> filter is_elimination rest = [] \<and> players st' = players st"
    proof (elim disjE exE conjE)
      assume "\<forall>t. \<not> reaches_threshold (kill_votes st) t"
      with assms(2) show ?thesis by simp
    next
      fix t0 assume "reaches_threshold (kill_votes st) t0" "t0 \<in> protect_targets st"
      with assms(2,3) threshold_unique [of "kill_votes st" t t0] show ?thesis by simp
    next
      fix t0 p
      assume "reaches_threshold (kill_votes st) t0" "get_player st t0 = Some p" "is_alive p"
      with assms(2,4) threshold_unique [of "kill_votes st" t t0] show ?thesis
        by (simp add: living_def)
    next
      fix t0
      assume "reaches_threshold (kill_votes st) t0" and k: "kills = [t0]" "saved = []"
        "filter is_elimination rest = []" "players st' = players st"
      with assms(2) threshold_unique [of "kill_votes st" t t0] have "t = t0" by simp
      with k show ?thesis by simp
    qed
    with run show ?thesis by simp
  qed
qed

theorem dead_target_in_kills_witness:
  "roles_registered night_dead_target classic_registry
   \<and> reaches_threshold (kill_votes night_dead_target) ''vil1''
   \<and> ''vil1'' \<notin> protect_targets night_dead_target
   \<and> \<not> living night_dead_target ''vil1''
   \<and> (\<exists>st' prot rest.
        resolve_night night_dead_target classic_registry 0
          = Inr (st', NightResultEvent 1 DAWN [''vil1''] prot [] # rest)
        \<and> filter is_elimination rest = []
        \<and> players st' = players night_dead_target)"
proof -
  have r: "reaches_threshold (kill_votes night_dead_target) ''vil1''"
    by (simp add: dead_target_facts reaches_threshold_def required_votes_def)
  have p: "''vil1'' \<notin> protect_targets night_dead_target" by (simp add: dead_target_facts)
  from dead_target_in_kills [OF dead_target_facts(1) r p dead_target_facts(4), of 0]
  have "\<exists>st' prot rest.
        resolve_night night_dead_target classic_registry 0
          = Inr (st', NightResultEvent 1 DAWN [''vil1''] prot [] # rest)
        \<and> filter is_elimination rest = []
        \<and> players st' = players night_dead_target"
    by (simp add: dead_target_facts(5))
  with dead_target_facts(1) r p dead_target_facts(4) show ?thesis by simp
qed

section \<open>Seed and vote lemmas\<close>




lemma emit_vote_events_eq:
  "emit_vote_events st votes
     = st\<lparr>events := events st @ map (\<lambda>(v, t). VoteEvent (day st) DAY_VOTE v t) votes\<rparr>"
  by (induction st votes rule: emit_vote_events.induct) (simp_all add: with_event_def)

lemma tally_votes_foldl: "tally_votes t ts = foldl counter_add t (named_targets ts)"
  by (induction t ts rule: tally_votes.induct) simp_all

lemma tally_votes_Counter: "tally_votes [] ts = Counter (named_targets ts)"
  by (simp add: tally_votes_foldl Counter_def)

lemma count_named: "count_list (named_targets ts) x = count_list ts (Some x)"
  by (induction ts rule: named_targets.induct) simp_all

lemma tally_mem:
  "((x, c) \<in> set (tally_votes [] (map snd votes)))
     = (0 < c \<and> c = vote_count votes x)"
proof -
  have "(x \<in> set (named_targets (map snd votes))) = (0 < vote_count votes x)"
    unfolding vote_count_def count_named [symmetric]
    using count_list_0_iff [of "named_targets (map snd votes)" x] by auto
  then show ?thesis
    unfolding tally_votes_Counter Counter_mem vote_count_def count_named by auto
qed

lemma tally_distinct: "distinct (map fst (tally_votes [] (map snd votes)))"
  unfolding tally_votes_Counter by (rule Counter_distinct)

lemma named_iff: "(x \<in> set (named_targets (map snd votes))) = (0 < vote_count votes x)"
  unfolding vote_count_def count_named [symmetric]
  using count_list_0_iff [of "named_targets (map snd votes)" x] by auto

lemma no_votes: "tally_votes [] (map snd votes) = [] \<Longrightarrow> \<not> plurality votes x"
proof
  assume e: "tally_votes [] (map snd votes) = []" and p: "plurality votes x"
  from p have "0 < vote_count votes x" by (simp add: plurality_def)
  then have "(x, vote_count votes x) \<in> set (tally_votes [] (map snd votes))"
    by (simp add: tally_mem)
  with e show False by simp
qed

lemma top_candidates_char:
  assumes "tally_votes [] (map snd votes) \<noteq> []"
  shows "\<exists>cands. top_candidates (tally_votes [] (map snd votes)) = Inr cands \<and> distinct cands
           \<and> cands \<noteq> [] \<and> (\<forall>x. (x \<in> set cands) = plurality votes x)"
proof -
  let ?T = "tally_votes [] (map snd votes)"
  from assms obtain k m where mc: "most_common1 ?T = Some (k, m)"
    using most_common1_None [of ?T] by (cases "most_common1 ?T") auto
  from most_common1_Some [OF mc] have kin: "(k, m) \<in> set ?T"
    and top: "\<forall>(k', c) \<in> set ?T. c \<le> m"
    by blast+
  from kin have m: "0 < m" "m = vote_count votes k" by (simp_all add: tally_mem)
  let ?cands = "map fst (filter (\<lambda>(pid, cnt). cnt = m) ?T)"
  have tc: "top_candidates ?T = Inr ?cands" by (simp add: top_candidates_def mc)
  have d: "distinct ?cands" using tally_distinct by (rule distinct_fst_filter)
  have mem: "(x \<in> set ?cands) = (vote_count votes x = m)" for x
  proof
    assume "x \<in> set ?cands"
    then have "(x, m) \<in> set ?T" by auto
    then show "vote_count votes x = m" by (simp add: tally_mem)
  next
    assume "vote_count votes x = m"
    with m have "(x, m) \<in> set ?T" by (simp add: tally_mem)
    then show "x \<in> set ?cands" by force
  qed
  have le: "vote_count votes y \<le> m" for y
  proof (cases "0 < vote_count votes y")
    case True
    then have "(y, vote_count votes y) \<in> set ?T" by (simp add: tally_mem)
    with top show ?thesis by blast
  next
    case False
    then show ?thesis by simp
  qed
  have pl: "plurality votes x = (vote_count votes x = m)" for x
  proof
    assume p: "plurality votes x"
    from m have "k \<in> set (named_targets (map snd votes))" by (simp add: named_iff)
    with p have "vote_count votes k \<le> vote_count votes x"
      by (simp add: plurality_def list_all_iff)
    with m le [of x] show "vote_count votes x = m" by simp
  next
    assume "vote_count votes x = m"
    with m le show "plurality votes x" by (simp add: plurality_def list_all_iff)
  qed
  from kin have kc: "k \<in> set ?cands" by force
  have ne: "?cands \<noteq> []"
  proof
    assume e: "?cands = []"
    from kc have "k \<in> set []" unfolding e .
    then show False by simp
  qed
  have "\<forall>x. (x \<in> set ?cands) = plurality votes x"
  proof
    fix x show "(x \<in> set ?cands) = plurality votes x"
      unfolding mem pl by (rule refl)
  qed
  with tc d ne show ?thesis by (intro exI [of _ ?cands] conjI)
qed

lemma tied_char:
  "distinct (tied votes) \<and> (\<forall>x. (x \<in> set (tied votes)) = plurality votes x)"
proof (cases "tally_votes [] (map snd votes) = []")
  case True
  then have "tied votes = []" by (simp add: tied_def top_candidates_def)
  with no_votes [OF True] show ?thesis by simp
next
  case False
  from top_candidates_char [OF False] obtain cands where
    c: "top_candidates (tally_votes [] (map snd votes)) = Inr cands" "distinct cands"
       "\<forall>x. (x \<in> set cands) = plurality votes x"
    by (elim exE conjE) (rule that)
  from c(1) have "tied votes = cands" by (simp add: tied_def)
  with c(2,3) show ?thesis by simp
qed

lemma run_vote_eq:
  "decide_vote (tally_votes [] (map snd votes)) voting r = Inr (e, t) \<Longrightarrow>
   run_vote st votes voting r
     = Inr (st\<lparr>events := events st @ map (\<lambda>(v, t). VoteEvent (day st) DAY_VOTE v t) votes
                @ [VoteResultEvent (day st) DAY_VOTE (tally_votes [] (map snd votes)) e t]\<rparr>)"
  by (simp add: run_vote_def Let_def emit_vote_events_eq with_event_def)

lemma decide_vote_char:
  "decide_vote (tally_votes [] (map snd votes)) voting r =
     Inr (if tied votes = [] then (None, False)
          else if length (tied votes) = 1 then (Some (hd (tied votes)), False)
          else if tie_breaker voting = ''random''
               then (Some (tied votes ! (r mod length (tied votes))), True)
          else (None, True))"
proof (cases "tally_votes [] (map snd votes) = []")
  case True
  then have "tied votes = []" by (simp add: tied_def top_candidates_def)
  with True show ?thesis by (simp add: decide_vote_def)
next
  case False
  from top_candidates_char [OF False] obtain cands where
    c: "top_candidates (tally_votes [] (map snd votes)) = Inr cands" "cands \<noteq> []"
    by (elim exE conjE) (rule that)
  then have t: "tied votes = cands" by (simp add: tied_def)
  show ?thesis
  proof (cases cands)
    case Nil
    with c(2) show ?thesis by simp
  next
    case (Cons a rest)
    with False c(1) t show ?thesis
      by (simp add: decide_vote_def random_choice_def)
  qed
qed

section \<open>Day vote and determinism\<close>

lemma two_in_long_list:
  assumes "distinct D" "D \<noteq> []" "length D \<noteq> 1"
  shows "\<exists>a b. a \<in> set D \<and> b \<in> set D \<and> a \<noteq> b"
proof (cases D)
  case Nil
  with assms(2) show ?thesis by simp
next
  case (Cons a rest)
  with assms(3) obtain b rest' where "rest = b # rest'" by (cases rest) auto
  with Cons assms(1) have "a \<in> set D" "b \<in> set D" "a \<noteq> b" by auto
  then show ?thesis by blast
qed

lemma decide_vote_props:
  "\<exists>e t. decide_vote (tally_votes [] (map snd votes)) voting r = Inr (e, t)
     \<and> (\<forall>x. plurality votes x \<and> (\<forall>y. plurality votes y \<longrightarrow> y = x) \<longrightarrow> e = Some x \<and> \<not> t)
     \<and> ((\<exists>x y. plurality votes x \<and> plurality votes y \<and> x \<noteq> y) \<longrightarrow>
           t \<and> (tie_breaker voting = ''no_elimination'' \<longrightarrow> e = None)
             \<and> (tie_breaker voting = ''random'' \<longrightarrow>
                   e = Some (tied votes ! (r mod length (tied votes)))
                   \<and> (\<exists>x. e = Some x \<and> plurality votes x))
             \<and> (tie_breaker voting \<noteq> ''random'' \<longrightarrow> e = None))
     \<and> ((\<forall>x. \<not> plurality votes x) \<longrightarrow> e = None \<and> \<not> t)"
proof -
  let ?D = "tied votes"
  let ?dv = "decide_vote (tally_votes [] (map snd votes)) voting r"
  from tied_char [of votes] have d: "distinct ?D" and pl: "\<And>x. plurality votes x = (x \<in> set ?D)"
    by simp_all
  note dv = decide_vote_char [of votes voting r]
  have fin: "\<exists>e t. ?dv = Inr (e, t)
     \<and> (\<forall>x. plurality votes x \<and> (\<forall>y. plurality votes y \<longrightarrow> y = x) \<longrightarrow> e = Some x \<and> \<not> t)
     \<and> ((\<exists>x y. plurality votes x \<and> plurality votes y \<and> x \<noteq> y) \<longrightarrow>
           t \<and> (tie_breaker voting = ''no_elimination'' \<longrightarrow> e = None)
             \<and> (tie_breaker voting = ''random'' \<longrightarrow>
                   e = Some (tied votes ! (r mod length (tied votes)))
                   \<and> (\<exists>x. e = Some x \<and> plurality votes x))
             \<and> (tie_breaker voting \<noteq> ''random'' \<longrightarrow> e = None))
     \<and> ((\<forall>x. \<not> plurality votes x) \<longrightarrow> e = None \<and> \<not> t)"
    if r: "?dv = Inr (e, t)"
      and u: "\<And>x. plurality votes x \<Longrightarrow> (\<forall>y. plurality votes y \<longrightarrow> y = x) \<Longrightarrow> e = Some x \<and> \<not> t"
      and m: "\<And>x y. plurality votes x \<Longrightarrow> plurality votes y \<Longrightarrow> x \<noteq> y \<Longrightarrow>
           t \<and> (tie_breaker voting = ''no_elimination'' \<longrightarrow> e = None)
             \<and> (tie_breaker voting = ''random'' \<longrightarrow>
                   e = Some (tied votes ! (r mod length (tied votes)))
                   \<and> (\<exists>x. e = Some x \<and> plurality votes x))
             \<and> (tie_breaker voting \<noteq> ''random'' \<longrightarrow> e = None)"
      and n: "(\<forall>x. \<not> plurality votes x) \<Longrightarrow> e = None \<and> \<not> t"
    for e t
  proof (intro exI [of _ e] exI [of _ t] conjI)
    show "?dv = Inr (e, t)" by (rule r)
    show "\<forall>x. plurality votes x \<and> (\<forall>y. plurality votes y \<longrightarrow> y = x) \<longrightarrow> e = Some x \<and> \<not> t"
    proof (intro allI impI, elim conjE)
      fix x assume "plurality votes x" "\<forall>y. plurality votes y \<longrightarrow> y = x"
      then show "e = Some x \<and> \<not> t" by (rule u)
    qed
    show "(\<exists>x y. plurality votes x \<and> plurality votes y \<and> x \<noteq> y) \<longrightarrow>
           t \<and> (tie_breaker voting = ''no_elimination'' \<longrightarrow> e = None)
             \<and> (tie_breaker voting = ''random'' \<longrightarrow>
                   e = Some (tied votes ! (r mod length (tied votes)))
                   \<and> (\<exists>x. e = Some x \<and> plurality votes x))
             \<and> (tie_breaker voting \<noteq> ''random'' \<longrightarrow> e = None)"
    proof (intro impI, elim exE conjE)
      fix x y assume "plurality votes x" "plurality votes y" "x \<noteq> y"
      then show "t \<and> (tie_breaker voting = ''no_elimination'' \<longrightarrow> e = None)
             \<and> (tie_breaker voting = ''random'' \<longrightarrow>
                   e = Some (tied votes ! (r mod length (tied votes)))
                   \<and> (\<exists>x. e = Some x \<and> plurality votes x))
             \<and> (tie_breaker voting \<noteq> ''random'' \<longrightarrow> e = None)" by (rule m)
    qed
    show "(\<forall>x. \<not> plurality votes x) \<longrightarrow> e = None \<and> \<not> t"
      using n by (rule impI)
  qed
  show ?thesis
  proof (cases "?D = []")
    case True
    with dv have r: "?dv = Inr (None, False)" by simp
    have np: "\<not> plurality votes x" for x unfolding pl True by simp
    show ?thesis
    proof (rule fin [OF r])
      fix x assume "plurality votes x"
      with np show "None = Some x \<and> \<not> False" by simp
    next
      fix x y assume "plurality votes x"
      with np show "False \<and> (tie_breaker voting = ''no_elimination'' \<longrightarrow> None = None)
             \<and> (tie_breaker voting = ''random'' \<longrightarrow>
                   None = Some (tied votes ! (r mod length (tied votes)))
                   \<and> (\<exists>x. None = Some x \<and> plurality votes x))
             \<and> (tie_breaker voting \<noteq> ''random'' \<longrightarrow> None = None)" by simp
    next
      show "None = None \<and> \<not> False" by simp
    qed
  next
    case ne: False
    show ?thesis
    proof (cases "length ?D = 1")
      case True
      then obtain k where k: "?D = [k]" by (cases ?D) simp_all
      with dv have r: "?dv = Inr (Some k, False)" by simp
      have pk: "plurality votes x = (x = k)" for x unfolding pl k by simp
      show ?thesis
      proof (rule fin [OF r])
        fix x assume "plurality votes x"
        then have "x = k" by (simp only: pk)
        then show "Some k = Some x \<and> \<not> False" by simp
      next
        fix x y assume "plurality votes x" "plurality votes y" "x \<noteq> y"
        then have "x = k" "y = k" "x \<noteq> y" by (simp_all only: pk)
        then have False by simp
        then show "False \<and> (tie_breaker voting = ''no_elimination'' \<longrightarrow> Some k = None)
             \<and> (tie_breaker voting = ''random'' \<longrightarrow>
                   Some k = Some (tied votes ! (r mod length (tied votes)))
                   \<and> (\<exists>x. Some k = Some x \<and> plurality votes x))
             \<and> (tie_breaker voting \<noteq> ''random'' \<longrightarrow> Some k = None)" by (rule FalseE)
      next
        assume "\<forall>x. \<not> plurality votes x"
        then have "\<not> plurality votes k" by (rule spec)
        then have False by (simp only: pk)
        then show "Some k = None \<and> \<not> False" by (rule FalseE)
      qed
    next
      case False
      from two_in_long_list [OF d ne False] obtain a b where
        ab: "a \<in> set ?D" "b \<in> set ?D" "a \<noteq> b" by blast
      then have pa: "plurality votes a" and pb: "plurality votes b" by (simp_all only: pl)
      from ne have "r mod length ?D < length ?D" by simp
      then have "?D ! (r mod length ?D) \<in> set ?D" by (rule nth_mem)
      then have nth: "plurality votes (?D ! (r mod length ?D))" by (simp only: pl)
      show ?thesis
      proof (cases "tie_breaker voting = ''random''")
        case True
        with dv ne False have r: "?dv = Inr (Some (?D ! (r mod length ?D)), True)" by simp
        show ?thesis
        proof (rule fin [OF r])
          fix x assume "plurality votes x" and all: "\<forall>y. plurality votes y \<longrightarrow> y = x"
          from all pa have "a = x" by simp
          moreover from all pb have "b = x" by simp
          ultimately have False using ab(3) by simp
          then show "Some (?D ! (r mod length ?D)) = Some x \<and> \<not> True" by (rule FalseE)
        next
          fix x y
          show "True \<and> (tie_breaker voting = ''no_elimination'' \<longrightarrow> Some (?D ! (r mod length ?D)) = None)
             \<and> (tie_breaker voting = ''random'' \<longrightarrow>
                   Some (?D ! (r mod length ?D)) = Some (tied votes ! (r mod length (tied votes)))
                   \<and> (\<exists>x. Some (?D ! (r mod length ?D)) = Some x \<and> plurality votes x))
             \<and> (tie_breaker voting \<noteq> ''random'' \<longrightarrow> Some (?D ! (r mod length ?D)) = None)"
            using True nth by simp
        next
          assume "\<forall>x. \<not> plurality votes x"
          with pa have False by simp
          then show "Some (?D ! (r mod length ?D)) = None \<and> \<not> True" by (rule FalseE)
        qed
      next
        case nr: False
        with dv ne False have r: "?dv = Inr (None, True)" by simp
        show ?thesis
        proof (rule fin [OF r])
          fix x assume "plurality votes x" and all: "\<forall>y. plurality votes y \<longrightarrow> y = x"
          from all pa have "a = x" by simp
          moreover from all pb have "b = x" by simp
          ultimately have False using ab(3) by simp
          then show "None = Some x \<and> \<not> True" by (rule FalseE)
        next
          fix x y
          show "True \<and> (tie_breaker voting = ''no_elimination'' \<longrightarrow> None = None)
             \<and> (tie_breaker voting = ''random'' \<longrightarrow>
                   None = Some (tied votes ! (r mod length (tied votes)))
                   \<and> (\<exists>x. None = Some x \<and> plurality votes x))
             \<and> (tie_breaker voting \<noteq> ''random'' \<longrightarrow> None = None)"
            using nr by simp
        next
          assume "\<forall>x. \<not> plurality votes x"
          with pa have False by simp
          then show "None = None \<and> \<not> True" by (rule FalseE)
        qed
      qed
    qed
  qed
qed

text \<open>
  C6. Day-vote resolution. For every collected map of votes, \<^verbatim>\<open>run_vote\<close> returns the state
  with one \<^verbatim>\<open>VoteEvent\<close> per voter appended (abstentions with target None included), in
  voting order, followed by the \<^verbatim>\<open>VoteResultEvent\<close>. The tally holds exactly the targets
  that were named, each with its number of votes. A unique plurality target becomes
  \<^verbatim>\<open>eliminated_id\<close> and \<^verbatim>\<open>tie\<close> is false. When two or more targets share the top count,
  \<^verbatim>\<open>tie\<close> is true; under \<^verbatim>\<open>no_elimination\<close>, the default, \<^verbatim>\<open>eliminated_id\<close> is None; under
  \<^verbatim>\<open>random\<close> it is the tied target that the draw selects, \<open>tied ! (r mod length tied)\<close>, where
  \<open>tied\<close> lists exactly the plurality targets, each once; under any other tie breaker it
  is None. When nobody is named, \<^verbatim>\<open>eliminated_id\<close> is None and \<^verbatim>\<open>tie\<close> is false.
\<close>

theorem day_vote_resolution:
  "\<exists>tally eliminated_id tie.
      run_vote st votes voting r
        = Inr (st\<lparr>events := events st @ map (\<lambda>(v, t). VoteEvent (day st) DAY_VOTE v t) votes
                 @ [VoteResultEvent (day st) DAY_VOTE tally eliminated_id tie]\<rparr>)
    \<and> distinct (map fst tally)
    \<and> (\<forall>x c. ((x, c) \<in> set tally) = (0 < c \<and> c = vote_count votes x))
    \<and> (\<forall>x. plurality votes x \<and> (\<forall>y. plurality votes y \<longrightarrow> y = x)
          \<longrightarrow> eliminated_id = Some x \<and> \<not> tie)
    \<and> ((\<exists>x y. plurality votes x \<and> plurality votes y \<and> x \<noteq> y) \<longrightarrow>
           tie \<and> (tie_breaker voting = ''no_elimination'' \<longrightarrow> eliminated_id = None)
             \<and> (tie_breaker voting = ''random'' \<longrightarrow>
                   eliminated_id = Some (tied votes ! (r mod length (tied votes)))
                   \<and> (\<exists>x. eliminated_id = Some x \<and> plurality votes x))
             \<and> (tie_breaker voting \<noteq> ''random'' \<longrightarrow> eliminated_id = None))
    \<and> ((\<forall>x. \<not> plurality votes x) \<longrightarrow> eliminated_id = None \<and> \<not> tie)
    \<and> distinct (tied votes) \<and> (\<forall>x. (x \<in> set (tied votes)) = plurality votes x)
    \<and> tie_breaker default_voting = ''no_elimination''"
proof -
  from decide_vote_props [of votes voting r] show ?thesis
  proof (elim exE conjE)
    fix e t
    assume dv: "decide_vote (tally_votes [] (map snd votes)) voting r = Inr (e, t)"
      and c4: "\<forall>x. plurality votes x \<and> (\<forall>y. plurality votes y \<longrightarrow> y = x) \<longrightarrow> e = Some x \<and> \<not> t"
      and c5: "(\<exists>x y. plurality votes x \<and> plurality votes y \<and> x \<noteq> y) \<longrightarrow>
           t \<and> (tie_breaker voting = ''no_elimination'' \<longrightarrow> e = None)
             \<and> (tie_breaker voting = ''random'' \<longrightarrow>
                   e = Some (tied votes ! (r mod length (tied votes)))
                   \<and> (\<exists>x. e = Some x \<and> plurality votes x))
             \<and> (tie_breaker voting \<noteq> ''random'' \<longrightarrow> e = None)"
      and c6: "(\<forall>x. \<not> plurality votes x) \<longrightarrow> e = None \<and> \<not> t"
    note c1 = run_vote_eq [OF dv, of st]
    note c2 = tally_distinct [of votes]
    have c3: "\<forall>x c. ((x, c) \<in> set (tally_votes [] (map snd votes))) = (0 < c \<and> c = vote_count votes x)"
      by (intro allI) (rule tally_mem)
    from tied_char [of votes] have c7: "distinct (tied votes)"
      and c8: "\<forall>x. (x \<in> set (tied votes)) = plurality votes x" by simp_all
    have c9: "tie_breaker default_voting = ''no_elimination''" by (simp add: default_voting_def)
    show ?thesis
      by (rule exI [of _ "tally_votes [] (map snd votes)"], rule exI [of _ e], rule exI [of _ t])
         (intro conjI; fact c1 c2 c3 c4 c5 c6 c7 c8 c9)
  qed
qed




lemma tie_facts:
  "plurality votes_tie ''vil1''" "plurality votes_tie ''wolf1''" "tied votes_tie = [''vil1'', ''wolf1'']"
  "day five_player_state = 1" "events five_player_state = []"
  by (code_simp, code_simp, code_simp, simp add: five_player_state_def, simp add: five_player_state_def)

lemma plurality_facts:
  "plurality votes_plurality ''vil1''" "tied votes_plurality = [''vil1'']"
  by (code_simp, code_simp)

theorem day_vote_resolution_witness:
  "(\<exists>tally. run_vote five_player_state votes_tie default_voting 0
       = Inr (five_player_state\<lparr>events := map (\<lambda>(v, t). VoteEvent 1 DAY_VOTE v t) votes_tie
                @ [VoteResultEvent 1 DAY_VOTE tally None True]\<rparr>))
   \<and> (\<exists>tally. run_vote five_player_state votes_plurality default_voting 0
       = Inr (five_player_state\<lparr>events := map (\<lambda>(v, t). VoteEvent 1 DAY_VOTE v t) votes_plurality
                @ [VoteResultEvent 1 DAY_VOTE tally (Some ''vil1'') False]\<rparr>))"
proof (rule conjI)
  show "\<exists>tally. run_vote five_player_state votes_tie default_voting 0
       = Inr (five_player_state\<lparr>events := map (\<lambda>(v, t). VoteEvent 1 DAY_VOTE v t) votes_tie
                @ [VoteResultEvent 1 DAY_VOTE tally None True]\<rparr>)"
  proof -
    from day_vote_resolution [of five_player_state votes_tie default_voting 0]
    obtain tally eliminated_id tie where
      run: "run_vote five_player_state votes_tie default_voting 0
          = Inr (five_player_state\<lparr>events := events five_player_state
                   @ map (\<lambda>(v, t). VoteEvent (day five_player_state) DAY_VOTE v t) votes_tie
                   @ [VoteResultEvent (day five_player_state) DAY_VOTE tally eliminated_id tie]\<rparr>)"
      and c: "(\<exists>x y. plurality votes_tie x \<and> plurality votes_tie y \<and> x \<noteq> y) \<longrightarrow>
             tie \<and> (tie_breaker default_voting = ''no_elimination'' \<longrightarrow> eliminated_id = None)
               \<and> (tie_breaker default_voting = ''random'' \<longrightarrow>
                     eliminated_id = Some (tied votes_tie ! (0 mod length (tied votes_tie)))
                     \<and> (\<exists>x. eliminated_id = Some x \<and> plurality votes_tie x))
               \<and> (tie_breaker default_voting \<noteq> ''random'' \<longrightarrow> eliminated_id = None)"
      and dflt: "tie_breaker default_voting = ''no_elimination''"
      by (elim exE conjE) (rule that)
    have p: "plurality votes_tie ''vil1'' \<and> plurality votes_tie ''wolf1'' \<and> ''vil1'' \<noteq> ''wolf1''"
      using tie_facts(1,2) by simp
    have "\<exists>x y. plurality votes_tie x \<and> plurality votes_tie y \<and> x \<noteq> y"
      by (rule exI [of _ "''vil1''"], rule exI [of _ "''wolf1''"]) (rule p)
    with c have q: "tie \<and> (tie_breaker default_voting = ''no_elimination'' \<longrightarrow> eliminated_id = None)
               \<and> (tie_breaker default_voting = ''random'' \<longrightarrow>
                     eliminated_id = Some (tied votes_tie ! (0 mod length (tied votes_tie)))
                     \<and> (\<exists>x. eliminated_id = Some x \<and> plurality votes_tie x))
               \<and> (tie_breaker default_voting \<noteq> ''random'' \<longrightarrow> eliminated_id = None)"
      by (rule mp)
    from q have t: "tie = True" by simp
    from q dflt have e: "eliminated_id = None" by simp
    from run have "run_vote five_player_state votes_tie default_voting 0
         = Inr (five_player_state\<lparr>events := map (\<lambda>(v, t). VoteEvent 1 DAY_VOTE v t) votes_tie
                  @ [VoteResultEvent 1 DAY_VOTE tally None True]\<rparr>)"
      by (simp only: t e tie_facts(4,5) append_Nil)
    then show ?thesis by (rule exI [of _ tally])
  qed
next
  show "\<exists>tally. run_vote five_player_state votes_plurality default_voting 0
       = Inr (five_player_state\<lparr>events := map (\<lambda>(v, t). VoteEvent 1 DAY_VOTE v t) votes_plurality
                @ [VoteResultEvent 1 DAY_VOTE tally (Some ''vil1'') False]\<rparr>)"
  proof -
    from day_vote_resolution [of five_player_state votes_plurality default_voting 0]
    obtain tally eliminated_id tie where
      run: "run_vote five_player_state votes_plurality default_voting 0
          = Inr (five_player_state\<lparr>events := events five_player_state
                   @ map (\<lambda>(v, t). VoteEvent (day five_player_state) DAY_VOTE v t) votes_plurality
                   @ [VoteResultEvent (day five_player_state) DAY_VOTE tally eliminated_id tie]\<rparr>)"
      and c: "\<forall>x. plurality votes_plurality x \<and> (\<forall>y. plurality votes_plurality y \<longrightarrow> y = x)
            \<longrightarrow> eliminated_id = Some x \<and> \<not> tie"
      and m: "\<forall>x. (x \<in> set (tied votes_plurality)) = plurality votes_plurality x"
      by (elim exE conjE) (rule that)
    have u: "\<forall>y. plurality votes_plurality y \<longrightarrow> y = ''vil1''"
    proof (intro allI impI)
      fix y assume p: "plurality votes_plurality y"
      from m have "(y \<in> set (tied votes_plurality)) = plurality votes_plurality y" by (rule spec)
      with p have "y \<in> set (tied votes_plurality)" by (rule iffD2 [rotated])
      then have "y \<in> set [''vil1'']" by (simp only: plurality_facts(2))
      then show "y = ''vil1''" by simp
    qed
    from c have imp: "plurality votes_plurality ''vil1''
            \<and> (\<forall>y. plurality votes_plurality y \<longrightarrow> y = ''vil1'')
          \<longrightarrow> eliminated_id = Some ''vil1'' \<and> \<not> tie" by (rule spec)
    from plurality_facts(1) u
    have "plurality votes_plurality ''vil1'' \<and> (\<forall>y. plurality votes_plurality y \<longrightarrow> y = ''vil1'')"
      by (rule conjI)
    with imp have q: "eliminated_id = Some ''vil1'' \<and> \<not> tie" by (rule mp)
    from q have e: "eliminated_id = Some ''vil1''" by (rule conjunct1)
    from q have t: "tie = False" by simp
    from run have "run_vote five_player_state votes_plurality default_voting 0
       = Inr (five_player_state\<lparr>events := map (\<lambda>(v, t). VoteEvent 1 DAY_VOTE v t) votes_plurality
                @ [VoteResultEvent 1 DAY_VOTE tally (Some ''vil1'') False]\<rparr>)"
      by (simp only: t e tie_facts(4,5) append_Nil)
    then show ?thesis by (rule exI [of _ tally])
  qed
qed


section \<open>The view of a player and the frame of the updates\<close>

lemma visible_events_filter:
  "visible_events (own_team_is st pid ''werewolf'') pid es = filter (visible_to st pid) es"
  by (induction "own_team_is st pid ''werewolf''" pid es rule: visible_events.induct) simp_all

lemma view_events_filter: "view_events st x = filter (visible_to st x) (events st)"
  unfolding visible_events_filter [symmetric]
  by (simp add: view_events_def own_team_is_def Let_def)

lemma unrestricted_visible: "\<not> restricted e \<Longrightarrow> visible_to st x e"
  by (cases e) simp_all

text \<open>
  C4. View projection. For every state and every player id X: \<^verbatim>\<open>alive_players\<close> lists the
  living players in order, the entries with id X unchanged, every other entry with role
  and team replaced by \<^verbatim>\<open>unknown\<close> and the metadata emptied; \<^verbatim>\<open>all_players\<close> is the list of
  (player_id, name, is_alive) of all players; the \<^verbatim>\<open>events\<close> of the view are the events of
  the state, in order, that are visible to X: a \<^verbatim>\<open>PrivateRevealEvent\<close> exactly when its
  player id is X, a \<^verbatim>\<open>SpeechEvent\<close> on the wolf channel exactly when X is a player whose team
  is \<^verbatim>\<open>werewolf\<close>, and every event of any other kind always.
\<close>

theorem view_projection:
  "length (alive_players st x) = length (get_alive_players st)
   \<and> (\<forall>i < length (get_alive_players st).
         (player_id (get_alive_players st ! i) = x
            \<longrightarrow> alive_players st x ! i = get_alive_players st ! i)
       \<and> (player_id (get_alive_players st ! i) \<noteq> x
            \<longrightarrow> alive_players st x ! i
                  = (get_alive_players st ! i)\<lparr>role := ''unknown'', team := ''unknown'', metadata := []\<rparr>))
   \<and> all_players st x = map (\<lambda>p. (player_id p, name p, is_alive p)) (players st)
   \<and> view_events st x = filter (visible_to st x) (events st)
   \<and> (\<forall>d ph target info. (PrivateRevealEvent d ph target info \<in> set (view_events st x))
         = (PrivateRevealEvent d ph target info \<in> set (events st) \<and> target = x))
   \<and> (\<forall>d ph speaker content. (SpeechEvent d ph speaker content ''wolf'' \<in> set (view_events st x))
         = (SpeechEvent d ph speaker content ''wolf'' \<in> set (events st) \<and> own_team_is st x ''werewolf''))
   \<and> (\<forall>e. \<not> restricted e \<longrightarrow> (e \<in> set (view_events st x)) = (e \<in> set (events st)))"
proof (intro conjI)
  show "length (alive_players st x) = length (get_alive_players st)"
    by (simp add: alive_players_def)
  show "\<forall>i < length (get_alive_players st).
         (player_id (get_alive_players st ! i) = x
            \<longrightarrow> alive_players st x ! i = get_alive_players st ! i)
       \<and> (player_id (get_alive_players st ! i) \<noteq> x
            \<longrightarrow> alive_players st x ! i
                  = (get_alive_players st ! i)\<lparr>role := ''unknown'', team := ''unknown'', metadata := []\<rparr>)"
    by (simp add: alive_players_def)
  show "all_players st x = map (\<lambda>p. (player_id p, name p, is_alive p)) (players st)"
    by (simp add: all_players_def)
  show "view_events st x = filter (visible_to st x) (events st)" by (rule view_events_filter)
  show "\<forall>d ph target info. (PrivateRevealEvent d ph target info \<in> set (view_events st x))
         = (PrivateRevealEvent d ph target info \<in> set (events st) \<and> target = x)"
    by (simp add: view_events_filter)
  show "\<forall>d ph speaker content. (SpeechEvent d ph speaker content ''wolf'' \<in> set (view_events st x))
         = (SpeechEvent d ph speaker content ''wolf'' \<in> set (events st) \<and> own_team_is st x ''werewolf'')"
    by (simp add: view_events_filter)
  show "\<forall>e. \<not> restricted e \<longrightarrow> (e \<in> set (view_events st x)) = (e \<in> set (events st))"
    by (simp add: view_events_filter unrestricted_visible)
qed

lemma fixture_view_facts:
  "get_alive_players fixture_with_events
     = [new_player ''wolf1'' ''Wolf1'' ''werewolf'' ''werewolf'',
        new_player ''wolf2'' ''Wolf2'' ''werewolf'' ''werewolf'',
        new_player ''seer1'' ''Seer'' ''seer'' ''village'',
        new_player ''doc1'' ''Doctor'' ''doctor'' ''village'']"
  "events fixture_with_events
     = [SpeechEvent 1 DAY_DISCUSSION ''doc1'' ''I trust the seer.'' ''public'',
        SpeechEvent 1 NIGHT ''wolf1'' ''Let us take the villager.'' ''wolf'',
        PrivateRevealEvent 1 DAWN ''seer1'' ''Wolf1 (wolf1) is a werewolf.'',
        EliminationEvent 1 DAWN ''vil1'' ''villager'' ''wolf_kill'']"
  "own_team_is fixture_with_events ''seer1'' ''werewolf'' = False"
  by (simp_all add: fixture_with_events_def get_alive_players_def with_player_killed_def
        five_player_state_def new_player_def own_team_is_def get_player_def)

theorem view_projection_witness:
  "alive_players fixture_with_events ''seer1'' ! 2 = new_player ''seer1'' ''Seer'' ''seer'' ''village''
   \<and> alive_players fixture_with_events ''seer1'' ! 0
       = (new_player ''wolf1'' ''Wolf1'' ''werewolf'' ''werewolf'')
           \<lparr>role := ''unknown'', team := ''unknown'', metadata := []\<rparr>
   \<and> view_events fixture_with_events ''seer1''
       = [SpeechEvent 1 DAY_DISCUSSION ''doc1'' ''I trust the seer.'' ''public'',
          PrivateRevealEvent 1 DAWN ''seer1'' ''Wolf1 (wolf1) is a werewolf.'',
          EliminationEvent 1 DAWN ''vil1'' ''villager'' ''wolf_kill'']
   \<and> EliminationEvent 1 DAWN ''vil1'' ''villager'' ''wolf_kill''
       \<in> set (view_events fixture_with_events ''seer1'')"
proof -
  note v = view_projection [of fixture_with_events "''seer1''"]
  from v have a: "\<forall>i < length (get_alive_players fixture_with_events).
         (player_id (get_alive_players fixture_with_events ! i) = ''seer1''
            \<longrightarrow> alive_players fixture_with_events ''seer1'' ! i = get_alive_players fixture_with_events ! i)
       \<and> (player_id (get_alive_players fixture_with_events ! i) \<noteq> ''seer1''
            \<longrightarrow> alive_players fixture_with_events ''seer1'' ! i
                  = (get_alive_players fixture_with_events ! i)
                      \<lparr>role := ''unknown'', team := ''unknown'', metadata := []\<rparr>)"
    by (elim conjE)
  from v have e: "view_events fixture_with_events ''seer1''
      = filter (visible_to fixture_with_events ''seer1'') (events fixture_with_events)"
    by (elim conjE)
  from v have o: "\<forall>e. \<not> restricted e \<longrightarrow> (e \<in> set (view_events fixture_with_events ''seer1''))
      = (e \<in> set (events fixture_with_events))"
    by (elim conjE)
  from a have "(2::nat) < length (get_alive_players fixture_with_events) \<longrightarrow>
         (player_id (get_alive_players fixture_with_events ! 2) = ''seer1''
            \<longrightarrow> alive_players fixture_with_events ''seer1'' ! 2 = get_alive_players fixture_with_events ! 2)
       \<and> (player_id (get_alive_players fixture_with_events ! 2) \<noteq> ''seer1''
            \<longrightarrow> alive_players fixture_with_events ''seer1'' ! 2
                  = (get_alive_players fixture_with_events ! 2)
                      \<lparr>role := ''unknown'', team := ''unknown'', metadata := []\<rparr>)"
    by (rule spec)
  then have 1: "alive_players fixture_with_events ''seer1'' ! 2
      = new_player ''seer1'' ''Seer'' ''seer'' ''village''"
    by (simp add: fixture_view_facts(1) new_player_def)
  from a have "(0::nat) < length (get_alive_players fixture_with_events) \<longrightarrow>
         (player_id (get_alive_players fixture_with_events ! 0) = ''seer1''
            \<longrightarrow> alive_players fixture_with_events ''seer1'' ! 0 = get_alive_players fixture_with_events ! 0)
       \<and> (player_id (get_alive_players fixture_with_events ! 0) \<noteq> ''seer1''
            \<longrightarrow> alive_players fixture_with_events ''seer1'' ! 0
                  = (get_alive_players fixture_with_events ! 0)
                      \<lparr>role := ''unknown'', team := ''unknown'', metadata := []\<rparr>)"
    by (rule spec)
  then have 2: "alive_players fixture_with_events ''seer1'' ! 0
       = (new_player ''wolf1'' ''Wolf1'' ''werewolf'' ''werewolf'')
           \<lparr>role := ''unknown'', team := ''unknown'', metadata := []\<rparr>"
    by (simp add: fixture_view_facts(1) new_player_def)
  from e have 3: "view_events fixture_with_events ''seer1''
       = [SpeechEvent 1 DAY_DISCUSSION ''doc1'' ''I trust the seer.'' ''public'',
          PrivateRevealEvent 1 DAWN ''seer1'' ''Wolf1 (wolf1) is a werewolf.'',
          EliminationEvent 1 DAWN ''vil1'' ''villager'' ''wolf_kill'']"
    by (simp add: fixture_view_facts(2,3))
  from o have "\<not> restricted (EliminationEvent 1 DAWN ''vil1'' ''villager'' ''wolf_kill'')
      \<longrightarrow> (EliminationEvent 1 DAWN ''vil1'' ''villager'' ''wolf_kill''
             \<in> set (view_events fixture_with_events ''seer1''))
          = (EliminationEvent 1 DAWN ''vil1'' ''villager'' ''wolf_kill''
             \<in> set (events fixture_with_events))"
    by (rule spec)
  then have 4: "EliminationEvent 1 DAWN ''vil1'' ''villager'' ''wolf_kill''
       \<in> set (view_events fixture_with_events ''seer1'')"
    by (simp add: fixture_view_facts(2))
  from 1 2 3 4 show ?thesis by (intro conjI)
qed

text \<open>
  C8. Frame of the state updates. Each of the six update operations returns a state that
  differs from the one it was applied to only in what the operation names: \<^verbatim>\<open>with_phase\<close>
  and \<^verbatim>\<open>with_day\<close> in the scalar; \<^verbatim>\<open>with_player_killed\<close> in the \<^verbatim>\<open>is_alive\<close> flags of the
  players with the given id, the players keeping their number, their order and their
  player_id, name, role, team and metadata; \<^verbatim>\<open>with_night_action\<close> in the one entry of
  \<^verbatim>\<open>night_actions\<close>; \<^verbatim>\<open>with_event\<close> in one event appended; \<^verbatim>\<open>clear_night_actions\<close> in the
  emptied \<^verbatim>\<open>night_actions\<close>. The operations are functions from states to states: the
  state they are applied to is a value and stays what it was.
\<close>

theorem state_update_frame:
  "(day (with_phase st ph) = day st \<and> phase (with_phase st ph) = ph
      \<and> players (with_phase st ph) = players st \<and> events (with_phase st ph) = events st
      \<and> night_actions (with_phase st ph) = night_actions st)
   \<and> (day (with_day st d) = d \<and> phase (with_day st d) = phase st
      \<and> players (with_day st d) = players st \<and> events (with_day st d) = events st
      \<and> night_actions (with_day st d) = night_actions st)
   \<and> (day (with_player_killed st pid) = day st \<and> phase (with_player_killed st pid) = phase st
      \<and> events (with_player_killed st pid) = events st
      \<and> night_actions (with_player_killed st pid) = night_actions st
      \<and> length (players (with_player_killed st pid)) = length (players st)
      \<and> map player_id (players (with_player_killed st pid)) = map player_id (players st)
      \<and> map name (players (with_player_killed st pid)) = map name (players st)
      \<and> map role (players (with_player_killed st pid)) = map role (players st)
      \<and> map team (players (with_player_killed st pid)) = map team (players st)
      \<and> map metadata (players (with_player_killed st pid)) = map metadata (players st)
      \<and> map is_alive (players (with_player_killed st pid))
          = map (\<lambda>p. is_alive p \<and> player_id p \<noteq> pid) (players st))
   \<and> (day (with_night_action st pid a) = day st \<and> phase (with_night_action st pid a) = phase st
      \<and> players (with_night_action st pid a) = players st
      \<and> events (with_night_action st pid a) = events st
      \<and> map_of (night_actions (with_night_action st pid a)) = (map_of (night_actions st))(pid \<mapsto> a))
   \<and> (day (with_event st e) = day st \<and> phase (with_event st e) = phase st
      \<and> players (with_event st e) = players st \<and> events (with_event st e) = events st @ [e]
      \<and> night_actions (with_event st e) = night_actions st)
   \<and> (day (clear_night_actions st) = day st \<and> phase (clear_night_actions st) = phase st
      \<and> players (clear_night_actions st) = players st \<and> events (clear_night_actions st) = events st
      \<and> night_actions (clear_night_actions st) = [])"
proof -
  have ds: "map_of (dict_set kvs k v) = (map_of kvs)(k \<mapsto> v)" for kvs :: "(string \<times> Action) list" and k v
    by (induction kvs k v rule: dict_set.induct) auto
  show ?thesis
    by (simp add: with_phase_def with_day_def with_player_killed_def with_night_action_def
          with_event_def clear_night_actions_def ds comp_def)
qed

subsection \<open>Victory\<close>

lemma alive_team_count:
  "length (filter (\<lambda>p. team p = t) (get_alive_players st)) = alive_count st t"
  by (simp add: get_alive_players_def alive_count_def conj_commute)

lemma alive_team_empty:
  "(filter (\<lambda>p. team p = t) (get_alive_players st) = []) = (alive_count st t = 0)"
  using alive_team_count [of t st] by (metis length_0_conv)

text \<open>
  C2 (amended). The victory checker is a three-way decision on the counts of living
  players: with no living werewolf-team player it returns a village win whose winners are
  all village-team players, alive or dead; otherwise, with at least as many living
  werewolves as living villagers, a werewolf win whose winners are all werewolf-team
  players; otherwise None. The three outcomes, a village win (no living werewolf), a
  werewolf win (a living werewolf, and at least as many living werewolves as living
  villagers) and no result (a living werewolf, and fewer living werewolves than living
  villagers), exclude each other and cover every pair of counts, and a state without
  players is a village win.
\<close>

theorem check_victory_law:
  "check_victory st =
     (if alive_count st ''werewolf'' = 0 then
        Some (GameEndEvent (day st) (phase st) ''village'' (team_ids st ''village'')
                ''All werewolves have been eliminated.'')
      else if alive_count st ''werewolf'' \<ge> alive_count st ''village'' then
        Some (GameEndEvent (day st) (phase st) ''werewolf'' (team_ids st ''werewolf'')
                ''Werewolves equal or outnumber the villagers.'')
      else None)
   \<and> (winning_team (check_victory st) = Some ''village'') = (alive_count st ''werewolf'' = 0)
   \<and> (winning_team (check_victory st) = Some ''werewolf'')
       = (0 < alive_count st ''werewolf'' \<and> alive_count st ''village'' \<le> alive_count st ''werewolf'')
   \<and> (check_victory st = None)
       = (0 < alive_count st ''werewolf'' \<and> alive_count st ''werewolf'' < alive_count st ''village'')
   \<and> winning_team (check_victory (st\<lparr>players := []\<rparr>)) = Some ''village''"
proof -
  have eq: "check_victory st =
     (if alive_count st ''werewolf'' = 0 then
        Some (GameEndEvent (day st) (phase st) ''village'' (team_ids st ''village'')
                ''All werewolves have been eliminated.'')
      else if alive_count st ''werewolf'' \<ge> alive_count st ''village'' then
        Some (GameEndEvent (day st) (phase st) ''werewolf'' (team_ids st ''werewolf'')
                ''Werewolves equal or outnumber the villagers.'')
      else None)"
    unfolding check_victory_def Let_def alive_team_empty alive_team_count
    by (simp add: team_ids_def get_players_by_team_def)
  have empty: "alive_count (st\<lparr>players := []\<rparr>) ''werewolf'' = 0"
    by (simp add: alive_count_def)
  have eq': "winning_team (check_victory (st\<lparr>players := []\<rparr>)) = Some ''village''"
    unfolding check_victory_def Let_def alive_team_empty empty by simp
  show ?thesis
    unfolding eq using eq' by auto
qed

text \<open>
  The two winning conditions as they were claimed, no living werewolf and at least as many
  living werewolves as living villagers, neither exclude each other nor cover all counts:
  both hold in the state without players, and neither holds on the fixture, with two
  living werewolves and three living villagers, where the checker returns None.
\<close>

theorem check_victory_law_counterexample:
  "alive_count (five_player_state\<lparr>players := []\<rparr>) ''werewolf'' = 0
   \<and> alive_count (five_player_state\<lparr>players := []\<rparr>) ''village''
        \<le> alive_count (five_player_state\<lparr>players := []\<rparr>) ''werewolf''
   \<and> alive_count five_player_state ''werewolf'' = 2
   \<and> alive_count five_player_state ''village'' = 3
   \<and> check_victory five_player_state = None"
  by (simp add: alive_count_def check_victory_def get_alive_players_def five_player_state_def
        new_player_def)

section \<open>Phase transitions\<close>








declare run_days.simps [simp del]











end
